theory Spec2Isabelle
  imports Main
begin

section \<open>Strings\<close>

text \<open>
  The scripts work on JavaScript strings. They are modelled as \<^typ>\<open>string\<close>. The only
  character classes the scripts distinguish are ASCII ones (\<open>[a-z0-9]\<close>, the hyphen, the
  double quote, \<open>>\<close>), and \<open>toLowerCase\<close> is modelled on the letters \<open>A\<close> to \<open>Z\<close>; every
  other character is left alone by \<open>lowerChar\<close> and is outside \<open>[a-z0-9]\<close> both before and
  after JavaScript's lower-casing, for all characters of Latin-1.
\<close>

definition isAlnum :: "char \<Rightarrow> bool" where
  \<comment> \<open>the class \<open>[a-z0-9]\<close>\<close>
  "isAlnum c = (c \<in> set ''abcdefghijklmnopqrstuvwxyz0123456789'')"

definition lowerChar :: "char \<Rightarrow> char" where
  "lowerChar c =
     (case map_of (zip ''ABCDEFGHIJKLMNOPQRSTUVWXYZ'' ''abcdefghijklmnopqrstuvwxyz'') c of
        None \<Rightarrow> c
      | Some l \<Rightarrow> l)"

definition toLowerCase :: "string \<Rightarrow> string" where
  "toLowerCase s = map lowerChar s"

text \<open>\<^verbatim>\<open>.replace(/[^a-z0-9]+/g, '-')\<close>: every maximal run of characters outside
  \<open>[a-z0-9]\<close> becomes one hyphen.\<close>

function replaceNonAlnumRuns :: "string \<Rightarrow> string" where
  "replaceNonAlnumRuns [] = []"
| "replaceNonAlnumRuns (c # cs) =
     (if isAlnum c then c # replaceNonAlnumRuns cs
      else CHR ''-'' # replaceNonAlnumRuns (dropWhile (\<lambda>x. \<not> isAlnum x) cs))"
  by pat_completeness auto
termination
  by (relation "measure length") (auto simp: less_Suc_eq_le length_dropWhile_le)

text \<open>\<^verbatim>\<open>.replace(/^-+|-+$/g, '')\<close>: the leading run of hyphens and the trailing run of
  hyphens are removed.\<close>

definition stripHyphens :: "string \<Rightarrow> string" where
  "stripHyphens s =
     rev (dropWhile (\<lambda>c. c = CHR ''-'') (rev (dropWhile (\<lambda>c. c = CHR ''-'') s)))"

text \<open>The slug that \<open>getOrCreateCategory\<close> derives from a category name.\<close>

definition categorySlug :: "string \<Rightarrow> string" where
  "categorySlug categoryName = stripHyphens (replaceNonAlnumRuns (toLowerCase categoryName))"

text \<open>A valid slug: characters of \<open>[a-z0-9]\<close> and single hyphens between them, no hyphen
  at either end.\<close>

fun noHyphenRun :: "string \<Rightarrow> bool" where
  "noHyphenRun (a # b # cs) = (\<not> (a = CHR ''-'' \<and> b = CHR ''-'') \<and> noHyphenRun (b # cs))"
| "noHyphenRun cs = True"

definition validSlug :: "string \<Rightarrow> bool" where
  "validSlug s =
     (list_all (\<lambda>c. isAlnum c \<or> c = CHR ''-'') s \<and> noHyphenRun s \<and>
      (s = [] \<or> (hd s \<noteq> CHR ''-'' \<and> last s \<noteq> CHR ''-'')))"


section \<open>The content store (\<open>convex/posts.ts\<close>, and the category functions after it)\<close>

text \<open>
  Documents carry the fields of the handlers' argument validators. Document identifiers,
  which the database generates, are natural numbers taken from a counter; \<open>Date.now()\<close> is
  the parameter \<open>now\<close>. A thrown \<open>Error\<close> is its message, on the left of a sum.
\<close>

datatype post_status = Draft | Published | Scheduled

record seo_fields =
  metaTitle :: "string option"
  metaDescription :: "string option"
  ogImage :: "string option"
  noindex :: "bool option"

record post_args =
  title :: string
  slug :: string
  content :: string
  excerpt :: "string option"
  featuredImage :: "string option"
  categoryId :: "nat option"
  authorId :: "string option"
  authorName :: string
  status :: post_status
  scheduledFor :: "nat option"
  seo :: seo_fields
  relatedPostIds :: "nat list option"

record post_doc = post_args +
  post_id :: nat
  publishedAt :: "nat option"
  modifiedAt :: nat

record category_doc =
  cat_id :: nat
  cat_name :: string
  cat_slug :: string
  cat_description :: "string option"

record database =
  posts :: "post_doc list"
  categories :: "category_doc list"
  nextId :: nat

text \<open>\<^verbatim>\<open>ctx.db.query('posts').withIndex('by_slug', (q) => q.eq('slug', s)).first()\<close>\<close>

definition postBySlug :: "database \<Rightarrow> string \<Rightarrow> post_doc option" where
  "postBySlug d s = find (\<lambda>p. slug p = s) (posts d)"

definition categoryBySlug :: "database \<Rightarrow> string \<Rightarrow> category_doc option" where
  "categoryBySlug d s = find (\<lambda>c. cat_slug c = s) (categories d)"

definition posts_getBySlug ::
  "database \<Rightarrow> string \<Rightarrow> (post_doc \<times> category_doc option) option" where
  "posts_getBySlug d s =
     (case postBySlug d s of
        None \<Rightarrow> None
      | Some post \<Rightarrow>
          Some (post,
            (case categoryId post of
               None \<Rightarrow> None
             | Some cid \<Rightarrow> find (\<lambda>c. cat_id c = cid) (categories d))))"

definition slugExistsMessage :: "string \<Rightarrow> string \<Rightarrow> string" where
  "slugExistsMessage kind s = kind @ '' with slug '' @ [CHR 0x22] @ s @ [CHR 0x22] @ '' already exists''"

text \<open>The document that \<open>create\<close> hands to \<^verbatim>\<open>ctx.db.insert('posts', ...)\<close>, with the
  identifier the insert returns.\<close>

definition insertedPost :: "nat \<Rightarrow> nat \<Rightarrow> post_args \<Rightarrow> post_doc" where
  "insertedPost now postId args =
     \<lparr> title = title args, slug = slug args, content = content args,
       excerpt = excerpt args, featuredImage = featuredImage args,
       categoryId = categoryId args, authorId = authorId args,
       authorName = authorName args, status = status args,
       scheduledFor = scheduledFor args, seo = seo args,
       relatedPostIds = relatedPostIds args,
       post_id = postId,
       publishedAt = (if status args = Published then Some now else None),
       modifiedAt = now \<rparr>"

definition posts_create :: "nat \<Rightarrow> post_args \<Rightarrow> database \<Rightarrow> (string + nat) \<times> database" where
  "posts_create now args d =
     (case postBySlug d (slug args) of
        Some existingPost \<Rightarrow> (Inl (slugExistsMessage ''Post'' (slug args)), d)
      | None \<Rightarrow>
          (let postId = nextId d
           in (Inr postId,
               d\<lparr>posts := posts d @ [insertedPost now postId args], nextId := Suc postId\<rparr>)))"

definition posts_updateFeaturedImage ::
  "nat \<Rightarrow> nat \<Rightarrow> string \<Rightarrow> database \<Rightarrow> (string + nat) \<times> database" where
  "posts_updateFeaturedImage now pid url d =
     (case find (\<lambda>p. post_id p = pid) (posts d) of
        None \<Rightarrow> (Inl ''Post not found'', d)
      | Some post \<Rightarrow>
          (Inr pid,
           d\<lparr>posts := map (\<lambda>p. if post_id p = pid
                                then p\<lparr>featuredImage := Some url, modifiedAt := now\<rparr>
                                else p) (posts d)\<rparr>))"

definition categories_getBySlug :: "database \<Rightarrow> string \<Rightarrow> category_doc option" where
  "categories_getBySlug d s = categoryBySlug d s"

definition categories_create ::
  "string \<Rightarrow> string \<Rightarrow> string option \<Rightarrow> database \<Rightarrow> (string + nat) \<times> database" where
  "categories_create name s description d =
     (case categoryBySlug d s of
        Some existingCategory \<Rightarrow> (Inl (slugExistsMessage ''Category'' s), d)
      | None \<Rightarrow>
          (let newId = nextId d;
               doc = \<lparr> cat_id = newId, cat_name = name, cat_slug = s,
                       cat_description = description \<rparr>
           in (Inr newId, d\<lparr>categories := categories d @ [doc], nextId := Suc newId\<rparr>)))"


section \<open>Regular expressions of the transformer\<close>

text \<open>
  Two regular expressions decide what the transformer does: the literal
  \<^verbatim>\<open>/<img[^>]+src="([^">]+)"/g\<close> that finds the image references, and
  \<^verbatim>\<open>new RegExp(oldUrl, 'g')\<close>, built from each migrated address. Expressions are
  modelled by the syntax below; \<open>ends r s\<close> lists, in the order in which a backtracking
  matcher tries them, the rests of \<open>s\<close> after a match of \<open>r\<close> at its start. The first
  element is the match the engine reports.
\<close>

datatype rx = Eps | Chr char | Dot | NoneOf "char list" | Cat rx rx | Opt rx | Plus rx

definition lineTerminator :: "char \<Rightarrow> bool" where
  "lineTerminator c = (c = CHR 0x0A \<or> c = CHR 0x0D)"

function ends :: "rx \<Rightarrow> string \<Rightarrow> string list" where
  "ends Eps s = [s]"
| "ends (Chr c) s = (case s of [] \<Rightarrow> [] | x # xs \<Rightarrow> if x = c then [xs] else [])"
| "ends Dot s = (case s of [] \<Rightarrow> [] | x # xs \<Rightarrow> if lineTerminator x then [] else [xs])"
| "ends (NoneOf cs) s = (case s of [] \<Rightarrow> [] | x # xs \<Rightarrow> if x \<in> set cs then [] else [xs])"
| "ends (Cat a b) s = concat (map (ends b) (ends a s))"
| "ends (Opt a) s = ends a s @ [s]"
| "ends (Plus a) s =
     concat (map (\<lambda>s'. (if length s' < length s then ends (Plus a) s' else []) @ [s']) (ends a s))"
  by pat_completeness auto
termination
  by (relation "measures [\<lambda>(r, s). size r, \<lambda>(r, s). length s]") auto

declare ends.simps [simp del]

fun lits :: "string \<Rightarrow> rx \<Rightarrow> rx" where
  "lits [] r = r"
| "lits (c # cs) r = Cat (Chr c) (lits cs r)"

text \<open>\<^verbatim>\<open>/<img[^>]+src="([^">]+)"/g\<close>: the part before the group, the group, and the
  closing quote. \<open>execImgAt\<close> is a match starting at the first character: the captured
  address and the rest after the match.\<close>

definition imgRegexHead :: rx where
  "imgRegexHead = lits ''<img'' (Cat (Plus (NoneOf ''>'')) (lits ''src='' (Chr (CHR 0x22))))"

definition imgRegexGroup :: rx where
  "imgRegexGroup = Plus (NoneOf [CHR 0x22, CHR ''>''])"

definition imgMatches :: "string \<Rightarrow> (string \<times> string) list" where
  "imgMatches s =
     concat (map (\<lambda>s1. concat (map (\<lambda>s2. map (\<lambda>s3. (take (length s1 - length s2) s1, s3))
                                               (ends (Chr (CHR 0x22)) s2))
                                   (ends imgRegexGroup s1)))
                 (ends imgRegexHead s))"

definition execImgAt :: "string \<Rightarrow> (string \<times> string) option" where
  "execImgAt s = (case imgMatches s of [] \<Rightarrow> None | m # ms \<Rightarrow> Some m)"

lemma ends_length: "s' \<in> set (ends r s) \<Longrightarrow> length s' \<le> length s"
proof (induction r s arbitrary: s' rule: ends.induct)
  case (1 s)
  then show ?case by (simp add: ends.simps)
next
  case (2 c s)
  then show ?case by (cases s) (auto simp: ends.simps split: if_splits)
next
  case (3 s)
  then show ?case by (cases s) (auto simp: ends.simps split: if_splits)
next
  case (4 cs s)
  then show ?case by (cases s) (auto simp: ends.simps split: if_splits)
next
  case (5 a b s)
  from "5.prems" obtain x where x: "x \<in> set (ends a s)" and s': "s' \<in> set (ends b x)"
    by (auto simp: ends.simps(5))
  from "5.IH"(1) [OF x] "5.IH"(2) [OF x s'] show ?case by simp
next
  case (6 a s)
  from "6.prems" have "s' \<in> set (ends a s) \<or> s' = s" by (auto simp: ends.simps(6))
  with "6.IH" show ?case by auto
next
  case (7 a s)
  from "7.prems" have "s' \<in> set (concat (map (\<lambda>x. (if length x < length s then ends (Plus a) x else []) @ [x])
                                        (ends a s)))"
    by (subst (asm) ends.simps(7)) simp
  then obtain x where x: "x \<in> set (ends a s)"
    and s': "s' = x \<or> (length x < length s \<and> s' \<in> set (ends (Plus a) x))"
    by (auto split: if_splits)
  from "7.IH"(1) [OF x] have le: "length x \<le> length s" .
  from s' show ?case
  proof
    assume "s' = x"
    with le show ?thesis by simp
  next
    assume r: "length x < length s \<and> s' \<in> set (ends (Plus a) x)"
    with "7.IH"(2) [OF x] have "length s' \<le> length x" by simp
    with le show ?thesis by simp
  qed
qed

lemma ends_Cat_Chr_shorter:
  assumes "s' \<in> set (ends (Cat (Chr c) r) s)"
  shows "length s' < length s"
proof -
  from assms obtain x where x: "x \<in> set (ends (Chr c) s)" and s': "s' \<in> set (ends r x)"
    by (auto simp: ends.simps(5))
  from x have "length x < length s" by (cases s) (auto simp: ends.simps(2) split: if_splits)
  with ends_length [OF s'] show ?thesis by simp
qed

lemma imgMatches_shorter:
  assumes "(u, rest) \<in> set (imgMatches s)"
  shows "length rest < length s"
proof -
  from assms obtain s1 s2 where 1: "s1 \<in> set (ends imgRegexHead s)"
    and 2: "s2 \<in> set (ends imgRegexGroup s1)" and 3: "rest \<in> set (ends (Chr (CHR 0x22)) s2)"
    unfolding imgMatches_def by auto
  from 1 have "length s1 < length s" unfolding imgRegexHead_def lits.simps
    by (rule ends_Cat_Chr_shorter)
  with ends_length [OF 2] ends_length [OF 3] show ?thesis by simp
qed

lemma execImgAt_shorter: "execImgAt s = Some (u, rest) \<Longrightarrow> length rest < length s"
  by (rule imgMatches_shorter [of u]) (auto simp: execImgAt_def split: list.splits)

text \<open>The loop \<^verbatim>\<open>while ((match = imgRegex.exec(html)) !== null) imageUrls.push(match[1])\<close>:
  the leftmost match from the current position, then on from its end.\<close>

function imageUrlsOf :: "string \<Rightarrow> string list" where
  "imageUrlsOf s =
     (case execImgAt s of
        Some (u, rest) \<Rightarrow> u # imageUrlsOf rest
      | None \<Rightarrow> (case s of [] \<Rightarrow> [] | c # cs \<Rightarrow> imageUrlsOf cs))"
  by pat_completeness auto
termination
  by (relation "measure length") (auto simp: execImgAt_shorter)

declare imageUrlsOf.simps [simp del]

text \<open>
  \<^verbatim>\<open>new RegExp(oldUrl, 'g')\<close> reads the address as a pattern. The fragment modelled here
  is: a character that is no syntax character stands for itself, a dot for any character
  but a line terminator, and a question mark makes the atom before it optional (greedy).
  \<open>compileAtoms\<close> is \<open>None\<close> on every other pattern. \<open>replaceMatches\<close> is the global
  replace: leftmost match, replacement, on from the end of the match (one character further
  after an empty match).
\<close>

definition regExpSyntaxChars :: "char list" where
  "regExpSyntaxChars = ''^$.*+?()[]{}|'' @ [CHR 0x5C]"

definition atomOf :: "char \<Rightarrow> rx option" where
  "atomOf c = (if c = CHR ''.'' then Some Dot
               else if c \<in> set regExpSyntaxChars then None
               else Some (Chr c))"

fun compileAtoms :: "string \<Rightarrow> rx list option" where
  "compileAtoms [] = Some []"
| "compileAtoms [c] = map_option (\<lambda>a. [a]) (atomOf c)"
| "compileAtoms (c # q # cs) =
     (case atomOf c of
        None \<Rightarrow> None
      | Some a \<Rightarrow>
          if q = CHR ''?''
          then (case cs of
                  [] \<Rightarrow> Some [Opt a]
                | q2 # cs2 \<Rightarrow> if q2 = CHR ''?'' then None
                             else map_option ((#) (Opt a)) (compileAtoms cs))
          else map_option ((#) a) (compileAtoms (q # cs)))"

definition seqOf :: "rx list \<Rightarrow> rx" where
  "seqOf atoms = foldr Cat atoms Eps"

function replaceMatches :: "rx \<Rightarrow> string \<Rightarrow> string \<Rightarrow> string" where
  "replaceMatches r new s =
     (case ends r s of
        s' # others \<Rightarrow>
          if length s' < length s then new @ replaceMatches r new s'
          else new @ (case s of [] \<Rightarrow> [] | c # cs \<Rightarrow> c # replaceMatches r new cs)
      | [] \<Rightarrow> (case s of [] \<Rightarrow> [] | c # cs \<Rightarrow> c # replaceMatches r new cs))"
  by pat_completeness auto
termination
  by (relation "measure (\<lambda>(r, new, s). length s)") auto

declare replaceMatches.simps [simp del]

text \<open>The replace of the engine, on the fragment: for a pattern of the fragment and a
  replacement string without \<open>$\<close> it is the global replace above. For every other
  argument the value is left unspecified, so that nothing is stated, and nothing can be
  proved, about what the engine does there.\<close>

definition fragmentReplace :: "string \<Rightarrow> string \<Rightarrow> string \<Rightarrow> string + string" where
  "fragmentReplace pattern new s =
     (case compileAtoms pattern of
        None \<Rightarrow> undefined
      | Some atoms \<Rightarrow>
          if CHR ''$'' \<notin> set new then Inr (replaceMatches (seqOf atoms) new s)
          else undefined)"


section \<open>The outside world of the scripts\<close>

text \<open>
  The scripts talk to the content store through the Convex client and to the image service
  through \<open>uploadImageFromUrl\<close>. The world they run in is a record: the store, the number
  of remote calls made so far, the calls and pauses in order (\<open>trace\<close>), and the lines
  printed. What the outside decides is read from the environment: whether the \<open>k\<close>-th
  remote call fails in transport before it reaches the store (\<open>convexFault\<close>), what the
  image service answers to the \<open>k\<close>-th call (\<open>cloudflareResponse\<close>: an error message or
  the new image identifier), the clock, the markup converter, and the replace of the
  regular-expression engine (pattern source, replacement, subject; \<open>Inl\<close> when
  \<^verbatim>\<open>new RegExp\<close> rejects the pattern).
\<close>

text \<open>A value read from an object used as a dictionary is a string of the script's own, or
  a property that every object inherits (\<open>constructor\<close>, \<open>toString\<close>, ...), named here by
  its key; the inherited values are functions or objects, never strings.\<close>

datatype jsvalue = Text string | Inherited string

datatype event =
    QueryPostsGetBySlug string
  | QueryCategoriesGetBySlug string
  | MutationPostsCreate post_args
  | MutationCategoriesCreate string string
  | MutationPostsUpdateFeaturedImage nat string
  | UploadImageFromUrl string string
  | Turndown string
  | Sleep nat

datatype console_line =
    LogFoundItems nat
  | LogFoundAttachments nat
  | LogSkippingNonPublished string
  | LogFoundPosts nat
  | LogMigratingImage string
  | LogMigratingInherited string
  | LogInvalidImageUrl string
  | LogImageUploaded string
  | ErrFailedToMigrateImage string
  | LogDryRunWouldCreateCategory string
  | LogCreatingCategory string
  | LogImportHeader bool
  | LogProcessing nat nat string
  | LogAlreadyExists
  | LogDryRunWouldImport string string "string list" "jsvalue option"
  | LogImportedSuccessfully
  | LogPostCreatedButImagesFailed bool nat
  | ErrFailedToImport string
  | LogImportSummary bool nat nat nat nat
  | LogUploading nat
  | LogUploadedSuccessfully string
  | LogUploadFailedRetrying string nat
  | LogUploadFailedAfter nat string
  | LogSlug string
  | LogAlreadyHasFeaturedImage
  | LogNoFeaturedImageInExport
  | LogWordPressUrl string
  | LogDryRunWouldUpload
  | LogDryRunWouldUpdate
  | LogUpdatedPost
  | LogFeaturedImageComplete
  | LogFailedToUpdatePost string

record world =
  store :: database
  tick :: nat
  trace :: "event list"
  console :: "console_line list"

record env =
  isDryRun :: bool
  isForce :: bool
  convexFault :: "nat \<Rightarrow> string option"
  cloudflareResponse :: "nat \<Rightarrow> string \<Rightarrow> string \<Rightarrow> string + string"
  dateNow :: "nat \<Rightarrow> nat"
  turndown :: "string \<Rightarrow> string + string"
  regExpReplace :: "string \<Rightarrow> string \<Rightarrow> string \<Rightarrow> string + string"

definition print :: "console_line list \<Rightarrow> world \<Rightarrow> world" where
  "print ls w = w\<lparr>console := console w @ ls\<rparr>"

definition sleep :: "nat \<Rightarrow> world \<Rightarrow> world" where
  "sleep ms w = w\<lparr>trace := trace w @ [Sleep ms]\<rparr>"

definition remoteCall :: "event \<Rightarrow> world \<Rightarrow> world" where
  "remoteCall ev w = w\<lparr>tick := Suc (tick w), trace := trace w @ [ev]\<rparr>"

text \<open>\<^verbatim>\<open>convex.query(api.posts.getBySlug, { slug })\<close> and the other three calls of the
  scripts: the call is made; it throws if the transport fails, and otherwise the handler
  runs on the store.\<close>

definition query_posts_getBySlug ::
  "env \<Rightarrow> string \<Rightarrow> world \<Rightarrow> (string + (post_doc \<times> category_doc option) option) \<times> world" where
  "query_posts_getBySlug e s w =
     (let w1 = remoteCall (QueryPostsGetBySlug s) w
      in case convexFault e (tick w) of
           Some err \<Rightarrow> (Inl err, w1)
         | None \<Rightarrow> (Inr (posts_getBySlug (store w1) s), w1))"

definition query_categories_getBySlug ::
  "env \<Rightarrow> string \<Rightarrow> world \<Rightarrow> (string + category_doc option) \<times> world" where
  "query_categories_getBySlug e s w =
     (let w1 = remoteCall (QueryCategoriesGetBySlug s) w
      in case convexFault e (tick w) of
           Some err \<Rightarrow> (Inl err, w1)
         | None \<Rightarrow> (Inr (categories_getBySlug (store w1) s), w1))"

definition mutation_posts_create ::
  "env \<Rightarrow> post_args \<Rightarrow> world \<Rightarrow> (string + nat) \<times> world" where
  "mutation_posts_create e args w =
     (let w1 = remoteCall (MutationPostsCreate args) w
      in case convexFault e (tick w) of
           Some err \<Rightarrow> (Inl err, w1)
         | None \<Rightarrow>
             (case posts_create (dateNow e (tick w)) args (store w1) of
                (r, d) \<Rightarrow> (r, w1\<lparr>store := d\<rparr>)))"

definition mutation_categories_create ::
  "env \<Rightarrow> string \<Rightarrow> string \<Rightarrow> world \<Rightarrow> (string + nat) \<times> world" where
  "mutation_categories_create e name s w =
     (let w1 = remoteCall (MutationCategoriesCreate name s) w
      in case convexFault e (tick w) of
           Some err \<Rightarrow> (Inl err, w1)
         | None \<Rightarrow>
             (case categories_create name s None (store w1) of
                (r, d) \<Rightarrow> (r, w1\<lparr>store := d\<rparr>)))"

definition mutation_posts_updateFeaturedImage ::
  "env \<Rightarrow> nat \<Rightarrow> string \<Rightarrow> world \<Rightarrow> (string + nat) \<times> world" where
  "mutation_posts_updateFeaturedImage e pid url w =
     (let w1 = remoteCall (MutationPostsUpdateFeaturedImage pid url) w
      in case convexFault e (tick w) of
           Some err \<Rightarrow> (Inl err, w1)
         | None \<Rightarrow>
             (case posts_updateFeaturedImage (dateNow e (tick w)) pid url (store w1) of
                (r, d) \<Rightarrow> (r, w1\<lparr>store := d\<rparr>)))"


section \<open>The image service (\<open>src/lib/cloudflare-images\<close>)\<close>

datatype ImageVariant = Thumbnail | Medium | Large | Og | Public

fun IMAGE_VARIANTS :: "ImageVariant \<Rightarrow> string" where
  "IMAGE_VARIANTS Thumbnail = ''thumbnail''"
| "IMAGE_VARIANTS Medium = ''medium''"
| "IMAGE_VARIANTS Large = ''large''"
| "IMAGE_VARIANTS Og = ''og''"
| "IMAGE_VARIANTS Public = ''public''"

definition ACCOUNT_HASH :: string where
  "ACCOUNT_HASH = ''uIVQ6NXJhv6uJPgWapIyVQ''"

definition getImageUrl :: "string \<Rightarrow> ImageVariant \<Rightarrow> string" where
  "getImageUrl imageId variant =
     ''https://imagedelivery.net/'' @ ACCOUNT_HASH @ ''/'' @ imageId @ ''/'' @ IMAGE_VARIANTS variant"

text \<open>\<open>uploadImageFromUrl(url, { alt })\<close>: one request to the service; it returns the image
  identifier of the answer or throws with the error message.\<close>

definition uploadImageFromUrl :: "env \<Rightarrow> string \<Rightarrow> string \<Rightarrow> world \<Rightarrow> (string + string) \<times> world" where
  "uploadImageFromUrl e url alt w =
     (cloudflareResponse e (tick w) url alt, remoteCall (UploadImageFromUrl url alt) w)"


section \<open>The migration script with the existence check and dry-run mode\<close>

text \<open>
  The source is \<open>src/unnamed/part_000\<close>: the revision of \<open>migrate-wordpress.ts\<close> that
  builds the attachment index, checks for an existing post and knows \<open>--dry-run\<close>. (The
  older \<open>scripts/migrate-wordpress.ts\<close> has none of the three: it drops only items that
  are no posts and trashed posts, keeps drafts, stores the raw thumbnail meta entry as the
  featured image address, and calls the create mutation for every post.) Reading the file
  and parsing the XML happen before the functions below; the model starts from the parsed
  items.
\<close>

subsection \<open>\<open>parseWordPressXML\<close>, from the parsed items on\<close>

text \<open>An \<open>item\<close> of the export as the XML parser delivers it: \<open>x?.[0]\<close> of each child
  element (\<open>None\<close> when the element is missing), the category elements, and the meta
  entries with key and value. The parser delivers a category element that has attributes
  as an object (\<open>CategoryElement\<close>: the \<open>domain\<close> attribute if there is one, and the
  text, empty when there is none), and one without attributes as a bare string
  (\<open>CategoryString\<close>), on which \<^verbatim>\<open>cat.$.domain\<close> throws a \<open>TypeError\<close>.\<close>

datatype category_el = CategoryString string | CategoryElement "string option" string

record item =
  item_title :: "string option"
  item_post_type :: "string option"
  item_post_id :: "string option"
  item_attachment_url :: "string option"
  item_status :: "string option"
  item_post_name :: "string option"
  item_content :: "string option"
  item_excerpt :: "string option"
  item_pubDate :: "string option"
  item_creator :: "string option"
  item_category :: "category_el list option"
  item_postmeta :: "(string option \<times> string option) list option"

record WordPressPost =
  wp_title :: string
  wp_slug :: string
  wp_content :: string
  wp_excerpt :: string
  wp_publishDate :: "string option"
  wp_author :: string
  wp_categories :: "string list"
  wp_status :: string
  wp_featuredImageUrl :: "jsvalue option"

text \<open>\<open>x || d\<close> on an optional string: the empty string counts as missing.\<close>

definition orElse :: "string option \<Rightarrow> string \<Rightarrow> string" where
  "orElse x d = (case x of None \<Rightarrow> d | Some v \<Rightarrow> if v = [] then d else v)"

definition truthy :: "string option \<Rightarrow> bool" where
  "truthy x = (case x of None \<Rightarrow> False | Some v \<Rightarrow> v \<noteq> [])"

definition truthyValue :: "jsvalue option \<Rightarrow> bool" where
  "truthyValue x = (case x of None \<Rightarrow> False | Some (Text v) \<Rightarrow> v \<noteq> [] | Some (Inherited k) \<Rightarrow> True)"

text \<open>
  The two dictionaries of the script (\<open>attachments\<close> and \<open>imageMapping\<close>) are plain objects
  with string values. \<open>record[key] = value\<close> adds an own property or overwrites it in its
  place, except for the key \<open>__proto__\<close>, where assigning a string does nothing.
  \<open>record[key]\<close> reads the own property if there is one and otherwise what the object
  inherits under that key.
\<close>

fun recordSet :: "string \<Rightarrow> string \<Rightarrow> (string \<times> string) list \<Rightarrow> (string \<times> string) list" where
  "recordSet k v [] = [(k, v)]"
| "recordSet k v ((k', v') # kvs) =
     (if k' = k then (k, v) # kvs else (k', v') # recordSet k v kvs)"

definition objectPrototypeKeys :: "string list" where
  "objectPrototypeKeys =
     [''constructor'', ''__proto__'', ''hasOwnProperty'', ''isPrototypeOf'',
      ''propertyIsEnumerable'', ''toLocaleString'', ''toString'', ''valueOf'',
      ''__defineGetter__'', ''__defineSetter__'', ''__lookupGetter__'', ''__lookupSetter__'']"

definition objectSet :: "string \<Rightarrow> string \<Rightarrow> (string \<times> string) list \<Rightarrow> (string \<times> string) list" where
  "objectSet k v own = (if k = ''__proto__'' then own else recordSet k v own)"

definition objectGet :: "(string \<times> string) list \<Rightarrow> string \<Rightarrow> jsvalue option" where
  "objectGet own k =
     (case map_of own k of
        Some v \<Rightarrow> Some (Text v)
      | None \<Rightarrow> if k \<in> set objectPrototypeKeys then Some (Inherited k) else None)"

text \<open>First pass: the attachment index.\<close>

fun buildAttachments :: "item list \<Rightarrow> (string \<times> string) list \<Rightarrow> (string \<times> string) list" where
  "buildAttachments [] attachments = attachments"
| "buildAttachments (it # items) attachments =
     buildAttachments items
       (if item_post_type it = Some ''attachment''
        then (case (item_post_id it, item_attachment_url it) of
                (Some attachmentId, Some attachmentUrl) \<Rightarrow>
                  if attachmentId \<noteq> [] \<and> attachmentUrl \<noteq> []
                  then objectSet attachmentId attachmentUrl attachments
                  else attachments
              | _ \<Rightarrow> attachments)
        else attachments)"

definition thumbnailId :: "item \<Rightarrow> string option" where
  "thumbnailId it =
     (case item_postmeta it of
        None \<Rightarrow> None
      | Some metas \<Rightarrow>
          (case find (\<lambda>meta. fst meta = Some ''_thumbnail_id'') metas of
             None \<Rightarrow> None
           | Some meta \<Rightarrow> snd meta))"

text \<open>\<^verbatim>\<open>item.category?.filter((cat) => cat.$.domain === 'category').map((cat) => cat._) || []\<close>:
  the labels of the elements whose domain is \<open>category\<close>; the filter throws at the first
  element that is a bare string.\<close>

definition typeErrorNoDomain :: string where
  "typeErrorNoDomain = ''TypeError: undefined is not an object (evaluating cat.$.domain)''"

fun categoryLabels :: "category_el list \<Rightarrow> string + string list" where
  "categoryLabels [] = Inr []"
| "categoryLabels (CategoryString text # cats) = Inl typeErrorNoDomain"
| "categoryLabels (CategoryElement domain text # cats) =
     (case categoryLabels cats of
        Inl err \<Rightarrow> Inl err
      | Inr labels \<Rightarrow> Inr (if domain = Some ''category'' then text # labels else labels))"

definition extractPost :: "(string \<times> string) list \<Rightarrow> item \<Rightarrow> string + WordPressPost" where
  "extractPost attachments it =
     (case (case item_category it of None \<Rightarrow> Inr [] | Some cats \<Rightarrow> categoryLabels cats) of
        Inl err \<Rightarrow> Inl err
      | Inr labels \<Rightarrow>
          Inr \<lparr> wp_title = orElse (item_title it) ''Untitled'',
                wp_slug = orElse (item_post_name it) [],
                wp_content = orElse (item_content it) [],
                wp_excerpt = orElse (item_excerpt it) [],
                wp_publishDate = (if truthy (item_pubDate it) then item_pubDate it else None),
                wp_author = orElse (item_creator it) ''Admin'',
                wp_categories = labels,
                wp_status = ''publish'',
                wp_featuredImageUrl =
                  (if truthy (thumbnailId it)
                   then objectGet attachments (the (thumbnailId it)) else None) \<rparr>)"

text \<open>Second pass: the posts, and the lines printed on the way. An error thrown while a
  post is extracted leaves the function (and ends the run).\<close>

fun extractPosts ::
  "(string \<times> string) list \<Rightarrow> item list \<Rightarrow> string + WordPressPost list \<times> console_line list" where
  "extractPosts attachments [] = Inr ([], [])"
| "extractPosts attachments (it # items) =
     (if item_post_type it \<noteq> Some ''post'' then extractPosts attachments items
      else if item_status it \<noteq> Some ''publish''
      then (case extractPosts attachments items of
              Inl err \<Rightarrow> Inl err
            | Inr (found, lines) \<Rightarrow>
                Inr (found, LogSkippingNonPublished (orElse (item_title it) ''Untitled'') # lines))
      else (case extractPost attachments it of
              Inl err \<Rightarrow> Inl err
            | Inr post \<Rightarrow>
                (case extractPosts attachments items of
                   Inl err \<Rightarrow> Inl err
                 | Inr (found, lines) \<Rightarrow> Inr (post # found, lines))))"

definition parseWordPressXML ::
  "item list \<Rightarrow> string + WordPressPost list \<times> console_line list" where
  "parseWordPressXML items =
     (let attachments = buildAttachments items []
      in case extractPosts attachments items of
           Inl err \<Rightarrow> Inl err
         | Inr (found, lines) \<Rightarrow>
             Inr (found,
                  [LogFoundItems (length items), LogFoundAttachments (length attachments)] @
                  lines @ [LogFoundPosts (length found)]))"

subsection \<open>\<open>migrateImage\<close> and \<open>convertContentToMarkdown\<close>\<close>

definition startsWith :: "string \<Rightarrow> string \<Rightarrow> bool" where
  "startsWith s p = (take (length p) s = p)"

definition migrateImage :: "env \<Rightarrow> string \<Rightarrow> string \<Rightarrow> world \<Rightarrow> string option \<times> world" where
  "migrateImage e imageUrl alt w =
     (let w1 = print [LogMigratingImage imageUrl] w
      in if imageUrl = [] \<or> \<not> startsWith imageUrl ''http''
         then (None, print [LogInvalidImageUrl imageUrl] w1)
         else (case uploadImageFromUrl e imageUrl alt w1 of
                 (Inr imageId, w2) \<Rightarrow>
                   (let newUrl = getImageUrl imageId Large
                    in (Some newUrl, print [LogImageUploaded newUrl] w2))
               | (Inl err, w2) \<Rightarrow> (None, print [ErrFailedToMigrateImage err] w2)))"

text \<open>The loop \<^verbatim>\<open>for (const oldUrl of imageUrls)\<close>: the mapping and the failure counter.\<close>

fun migrateImages ::
  "env \<Rightarrow> string \<Rightarrow> string list \<Rightarrow> (string \<times> string) list \<times> nat \<Rightarrow> world \<Rightarrow>
   ((string \<times> string) list \<times> nat) \<times> world" where
  "migrateImages e alt [] acc w = (acc, w)"
| "migrateImages e alt (oldUrl # urls) (imageMapping, imagesFailed) w =
     (case migrateImage e oldUrl alt w of
        (newUrl, w1) \<Rightarrow>
          if truthy newUrl
          then migrateImages e alt urls (objectSet oldUrl (the newUrl) imageMapping, imagesFailed) w1
          else migrateImages e alt urls (imageMapping, Suc imagesFailed) w1)"


text \<open>The loop \<^verbatim>\<open>updatedHtml = updatedHtml.replace(new RegExp(oldUrl, 'g'), newUrl)\<close> over
  the entries of the mapping.\<close>

fun replaceImageUrls :: "env \<Rightarrow> (string \<times> string) list \<Rightarrow> string \<Rightarrow> string + string" where
  "replaceImageUrls e [] updatedHtml = Inr updatedHtml"
| "replaceImageUrls e ((oldUrl, newUrl) # entries) updatedHtml =
     (case regExpReplace e oldUrl newUrl updatedHtml of
        Inl err \<Rightarrow> Inl err
      | Inr html' \<Rightarrow> replaceImageUrls e entries html')"

definition callTurndown :: "env \<Rightarrow> string \<Rightarrow> world \<Rightarrow> (string + string) \<times> world" where
  "callTurndown e html w = (turndown e html, w\<lparr>trace := trace w @ [Turndown html]\<rparr>)"

definition convertContentToMarkdown ::
  "env \<Rightarrow> string \<Rightarrow> string \<Rightarrow> world \<Rightarrow> (string + string \<times> nat) \<times> world" where
  "convertContentToMarkdown e html alt w =
     (case migrateImages e alt (imageUrlsOf html) ([], 0) w of
        ((imageMapping, imagesFailed), w1) \<Rightarrow>
          (case replaceImageUrls e imageMapping html of
             Inl err \<Rightarrow> (Inl err, w1)
           | Inr updatedHtml \<Rightarrow>
               (case callTurndown e updatedHtml w1 of
                  (Inl err, w2) \<Rightarrow> (Inl err, w2)
                | (Inr markdown, w2) \<Rightarrow> (Inr (markdown, imagesFailed), w2))))"

subsection \<open>\<open>getOrCreateCategory\<close>\<close>

definition getOrCreateCategory ::
  "env \<Rightarrow> string \<Rightarrow> world \<Rightarrow> (string + nat option) \<times> world" where
  "getOrCreateCategory e categoryName w =
     (if categoryName = [] then (Inr None, w)
      else
        (let derived = categorySlug categoryName
         in case query_categories_getBySlug e derived w of
              (Inl err, w1) \<Rightarrow> (Inl err, w1)
            | (Inr (Some existingCategory), w1) \<Rightarrow> (Inr (Some (cat_id existingCategory)), w1)
            | (Inr None, w1) \<Rightarrow>
                if isDryRun e
                then (Inr None, print [LogDryRunWouldCreateCategory categoryName] w1)
                else (case mutation_categories_create e categoryName derived
                             (print [LogCreatingCategory categoryName] w1) of
                        (Inl err, w2) \<Rightarrow> (Inl err, w2)
                      | (Inr newId, w2) \<Rightarrow> (Inr (Some newId), w2))))"


subsection \<open>\<open>importPosts\<close>\<close>

record import_stats =
  successCount :: nat
  skipCount :: nat
  failCount :: nat
  imageFailCount :: nat

text \<open>\<^verbatim>\<open>post.excerpt ? turndownService.turndown(post.excerpt) : undefined\<close>\<close>

definition convertExcerpt :: "env \<Rightarrow> WordPressPost \<Rightarrow> world \<Rightarrow> (string + string option) \<times> world" where
  "convertExcerpt e post w =
     (if wp_excerpt post \<noteq> []
      then (case callTurndown e (wp_excerpt post) w of
              (Inl err, w1) \<Rightarrow> (Inl err, w1)
            | (Inr markdown, w1) \<Rightarrow> (Inr (Some markdown), w1))
      else (Inr None, w))"

text \<open>\<^verbatim>\<open>post.categories[0] ? await getOrCreateCategory(post.categories[0]) : undefined\<close>\<close>

definition resolveCategory :: "env \<Rightarrow> WordPressPost \<Rightarrow> world \<Rightarrow> (string + nat option) \<times> world" where
  "resolveCategory e post w =
     (case wp_categories post of
        [] \<Rightarrow> (Inr None, w)
      | first # others \<Rightarrow> if first = [] then (Inr None, w) else getOrCreateCategory e first w)"

text \<open>The block "Migrate featured image if exists": the featured image and the flag
  \<open>featuredImageFailed\<close>. An inherited value is truthy and no string: \<open>migrateImage\<close>
  prints it, fails on \<^verbatim>\<open>imageUrl.startsWith\<close> inside its \<open>try\<close>, prints the error and
  returns \<open>null\<close>.\<close>

definition importFeaturedImage ::
  "env \<Rightarrow> WordPressPost \<Rightarrow> world \<Rightarrow> (string option \<times> bool) \<times> world" where
  "importFeaturedImage e post w =
     (case wp_featuredImageUrl post of
        None \<Rightarrow> ((None, False), w)
      | Some (Text url) \<Rightarrow>
          if url = [] then ((None, False), w)
          else (case migrateImage e url (wp_title post) w of
                  (migratedImage, w1) \<Rightarrow>
                    if truthy migratedImage then ((migratedImage, False), w1)
                    else ((None, True), w1))
      | Some (Inherited k) \<Rightarrow>
          ((None, True),
           print [LogMigratingInherited k,
                  ErrFailedToMigrateImage ''TypeError: imageUrl.startsWith is not a function''] w))"

text \<open>The argument of \<^verbatim>\<open>convex.mutation(api.posts.create, ...)\<close>.\<close>

definition createArgs ::
  "WordPressPost \<Rightarrow> string \<Rightarrow> string option \<Rightarrow> string option \<Rightarrow> nat option \<Rightarrow> post_args" where
  "createArgs post markdown ex img cid =
     \<lparr> title = wp_title post, slug = wp_slug post, content = markdown, excerpt = ex,
       featuredImage = img, categoryId = cid, authorId = None,
       authorName = wp_author post, status = Published, scheduledFor = None,
       seo = \<lparr> metaTitle = Some (wp_title post), metaDescription = map_option (take 160) ex,
               ogImage = None, noindex = None \<rparr>,
       relatedPostIds = None \<rparr>"

text \<open>The body of the \<open>try\<close> block for one post. No counter is changed before a point
  that can throw, so the counters of a run that throws are the ones it started with.\<close>

definition tryImport ::
  "env \<Rightarrow> WordPressPost \<Rightarrow> import_stats \<Rightarrow> world \<Rightarrow> (string + import_stats) \<times> world" where
  "tryImport e post st w =
     (case query_posts_getBySlug e (wp_slug post) w of
        (Inl err, w1) \<Rightarrow> (Inl err, w1)
      | (Inr (Some existingPost), w1) \<Rightarrow>
          (Inr (st\<lparr>skipCount := Suc (skipCount st)\<rparr>), print [LogAlreadyExists] w1)
      | (Inr None, w1) \<Rightarrow>
          if isDryRun e
          then (Inr (st\<lparr>successCount := Suc (successCount st)\<rparr>),
                print [LogDryRunWouldImport (wp_title post) (wp_slug post) (wp_categories post)
                         (wp_featuredImageUrl post)] w1)
          else
            (case convertContentToMarkdown e (wp_content post) (wp_title post) w1 of
               (Inl err, w2) \<Rightarrow> (Inl err, w2)
             | (Inr (markdown, imagesFailed), w2) \<Rightarrow>
            (case convertExcerpt e post w2 of
               (Inl err, w3) \<Rightarrow> (Inl err, w3)
             | (Inr ex, w3) \<Rightarrow>
            (case resolveCategory e post w3 of
               (Inl err, w4) \<Rightarrow> (Inl err, w4)
             | (Inr cid, w4) \<Rightarrow>
            (case importFeaturedImage e post w4 of
               ((img, featuredImageFailed), w5) \<Rightarrow>
            (case mutation_posts_create e (createArgs post markdown ex img cid) w5 of
               (Inl err, w6) \<Rightarrow> (Inl err, w6)
             | (Inr newId, w6) \<Rightarrow>
                 if featuredImageFailed \<or> imagesFailed > 0
                 then (Inr (st\<lparr>imageFailCount := Suc (imageFailCount st),
                               successCount := Suc (successCount st)\<rparr>),
                       print [LogImportedSuccessfully,
                              LogPostCreatedButImagesFailed featuredImageFailed imagesFailed] w6)
                 else (Inr (st\<lparr>successCount := Suc (successCount st)\<rparr>),
                       print [LogImportedSuccessfully] w6)))))))"

text \<open>The loop over the posts, from index \<open>i\<close> of \<open>n\<close>, with its \<open>catch\<close>.\<close>

fun importLoop ::
  "env \<Rightarrow> nat \<Rightarrow> nat \<Rightarrow> WordPressPost list \<Rightarrow> import_stats \<Rightarrow> world \<Rightarrow> import_stats \<times> world" where
  "importLoop e n i [] st w = (st, w)"
| "importLoop e n i (post # rest) st w =
     (case tryImport e post st (print [LogProcessing (Suc i) n (wp_title post)] w) of
        (Inr st', w1) \<Rightarrow> importLoop e n (Suc i) rest st' w1
      | (Inl err, w1) \<Rightarrow>
          importLoop e n (Suc i) rest (st\<lparr>failCount := Suc (failCount st)\<rparr>)
            (print [ErrFailedToImport err] w1))"

definition importPosts :: "env \<Rightarrow> WordPressPost list \<Rightarrow> world \<Rightarrow> import_stats \<times> world" where
  "importPosts e wps w =
     (case importLoop e (length wps) 0 wps
             \<lparr> successCount = 0, skipCount = 0, failCount = 0, imageFailCount = 0 \<rparr>
             (print [LogImportHeader (isDryRun e)] w) of
        (st, w1) \<Rightarrow>
          (st, print [LogImportSummary (isDryRun e) (successCount st) (skipCount st)
                        (failCount st) (imageFailCount st)] w1))"


section \<open>The script \<open>scripts/fix-featured-images.ts\<close>\<close>

definition RETRY_ATTEMPTS :: nat where "RETRY_ATTEMPTS = 3"
definition RETRY_DELAY_MS :: nat where "RETRY_DELAY_MS = 2000"
definition RATE_LIMIT_DELAY_MS :: nat where "RATE_LIMIT_DELAY_MS = 500"

record fix_stats =
  stat_total :: nat
  stat_success :: nat
  stat_skipped :: nat
  stat_failed :: nat
  stat_errors :: "(string \<times> string) list"

function uploadToCloudflare ::
  "env \<Rightarrow> string \<Rightarrow> string \<Rightarrow> nat \<Rightarrow> world \<Rightarrow> string option \<times> world" where
  "uploadToCloudflare e imageUrl filename attemptNum w =
     (case uploadImageFromUrl e imageUrl filename (print [LogUploading attemptNum] w) of
        (Inr imageId, w1) \<Rightarrow>
          (let cloudflareUrl = getImageUrl imageId Large
           in (Some cloudflareUrl, print [LogUploadedSuccessfully cloudflareUrl] w1))
      | (Inl errorMsg, w1) \<Rightarrow>
          if attemptNum < RETRY_ATTEMPTS
          then uploadToCloudflare e imageUrl filename (Suc attemptNum)
                 (sleep RETRY_DELAY_MS (print [LogUploadFailedRetrying errorMsg RETRY_DELAY_MS] w1))
          else (None, print [LogUploadFailedAfter RETRY_ATTEMPTS errorMsg] w1))"
  by pat_completeness auto
termination
  by (relation "measure (\<lambda>(e, imageUrl, filename, attemptNum, w). RETRY_ATTEMPTS - attemptNum)")
     auto

declare uploadToCloudflare.simps [simp del]

definition updatePostFeaturedImage ::
  "env \<Rightarrow> nat \<Rightarrow> string \<Rightarrow> world \<Rightarrow> (string + unit) \<times> world" where
  "updatePostFeaturedImage e postId imageUrl w =
     (if isDryRun e then (Inr (), print [LogDryRunWouldUpdate] w)
      else (case mutation_posts_updateFeaturedImage e postId imageUrl w of
              (Inl err, w1) \<Rightarrow> (Inl err, w1)
            | (Inr r, w1) \<Rightarrow> (Inr (), print [LogUpdatedPost] w1)))"

text \<open>\<^verbatim>\<open>wordpressImageUrl.split('/').pop() || `${slug}.jpg`\<close>\<close>

definition fileNameOf :: "string \<Rightarrow> string \<Rightarrow> string" where
  "fileNameOf url s =
     (let segment = rev (takeWhile (\<lambda>c. c \<noteq> CHR ''/'') (rev url))
      in if segment = [] then s @ ''.jpg'' else segment)"

definition processPost ::
  "env \<Rightarrow> post_doc \<Rightarrow> (string \<Rightarrow> string option) \<Rightarrow> nat \<Rightarrow> nat \<Rightarrow> fix_stats \<Rightarrow> world \<Rightarrow>
   fix_stats \<times> world" where
  "processPost e post featuredImages index n st w =
     (let w0 = print [LogProcessing (Suc index) n (title post), LogSlug (slug post)] w
      in if truthy (featuredImage post) \<and> \<not> isForce e
         then (st\<lparr>stat_skipped := Suc (stat_skipped st)\<rparr>, print [LogAlreadyHasFeaturedImage] w0)
         else if \<not> truthy (featuredImages (slug post))
         then (st\<lparr>stat_skipped := Suc (stat_skipped st)\<rparr>, print [LogNoFeaturedImageInExport] w0)
         else
           (let wordpressImageUrl = the (featuredImages (slug post));
                w1 = print [LogWordPressUrl wordpressImageUrl] w0
            in if isDryRun e
               then (st\<lparr>stat_success := Suc (stat_success st)\<rparr>, print [LogDryRunWouldUpload] w1)
               else
                 (case uploadToCloudflare e wordpressImageUrl
                         (fileNameOf wordpressImageUrl (slug post)) 1 w1 of
                    (cloudflareUrl, w2) \<Rightarrow>
                      if \<not> truthy cloudflareUrl
                      then (st\<lparr>stat_failed := Suc (stat_failed st),
                               stat_errors := stat_errors st @
                                 [(slug post, ''Failed to upload to Cloudflare'')]\<rparr>, w2)
                      else
                        (case updatePostFeaturedImage e (post_id post) (the cloudflareUrl) w2 of
                           (Inr u, w3) \<Rightarrow>
                             (st\<lparr>stat_success := Suc (stat_success st)\<rparr>,
                              sleep RATE_LIMIT_DELAY_MS (print [LogFeaturedImageComplete] w3))
                         | (Inl errorMsg, w3) \<Rightarrow>
                             (st\<lparr>stat_failed := Suc (stat_failed st),
                                 stat_errors := stat_errors st @
                                   [(slug post, ''Failed to update post: '' @ errorMsg)]\<rparr>,
                              sleep RATE_LIMIT_DELAY_MS
                                (print [LogFailedToUpdatePost errorMsg] w3))))))"



section \<open>The substitution as the specification words it\<close>






section \<open>Sample data\<close>

text \<open>Concrete values at which the theorems below are instantiated: an empty store, a
  world that has made no call, an environment in which nothing fails (uploads answer with
  the image identifier \<open>img\<close>, the converter returns its input), and a post.\<close>

definition emptyDb :: database where
  "emptyDb = \<lparr> posts = [], categories = [], nextId = 0 \<rparr>"

definition world0 :: world where
  "world0 = \<lparr> store = emptyDb, tick = 0, trace = [], console = [] \<rparr>"

definition quietEnv :: env where
  "quietEnv = \<lparr> isDryRun = False, isForce = False, convexFault = (\<lambda>k. None),
                 cloudflareResponse = (\<lambda>k url alt. Inr ''img''), dateNow = (\<lambda>k. 1000 + k),
                 turndown = Inr, regExpReplace = fragmentReplace \<rparr>"

definition samplePost :: "string \<Rightarrow> string \<Rightarrow> WordPressPost" where
  "samplePost s html =
     \<lparr> wp_title = ''Hello'', wp_slug = s, wp_content = html, wp_excerpt = [],
       wp_publishDate = None, wp_author = ''Admin'', wp_categories = [],
       wp_status = ''publish'', wp_featuredImageUrl = None \<rparr>"

definition sampleArgs :: "string \<Rightarrow> post_args" where
  "sampleArgs s = createArgs (samplePost s ''<p>hi</p>'') ''hi'' None None None"

definition helloDb :: database where
  "helloDb = \<lparr> posts = [insertedPost 7 0 (sampleArgs ''hello'')], categories = [], nextId = 1 \<rparr>"

text \<open>The quiet environment with a converter that throws on every input.\<close>

definition brokenConverterEnv :: env where
  "brokenConverterEnv = quietEnv\<lparr>turndown := (\<lambda>html. Inl ''conversion failed'')\<rparr>"

text \<open>The quiet environment with an image service that refuses every upload; statistics
  of a run over one post; a stored post without featured image.\<close>

definition refusingUploadsEnv :: env where
  "refusingUploadsEnv =
     quietEnv\<lparr>cloudflareResponse := (\<lambda>k url alt. Inl ''Cloudflare Images upload failed'')\<rparr>"

definition freshStats :: fix_stats where
  "freshStats = \<lparr> stat_total = 1, stat_success = 0, stat_skipped = 0, stat_failed = 0,
                   stat_errors = [] \<rparr>"

definition helloDoc :: post_doc where
  "helloDoc = insertedPost 7 0 (sampleArgs ''hello'')"

text \<open>The quiet environment in dry-run mode, and the category document that the create
  mutation of \<open>getOrCreateCategory\<close> inserts for a name.\<close>

definition dryRunEnv :: env where
  "dryRunEnv = quietEnv\<lparr>isDryRun := True\<rparr>"

definition insertedCategory :: "nat \<Rightarrow> string \<Rightarrow> category_doc" where
  "insertedCategory newId name =
     \<lparr> cat_id = newId, cat_name = name, cat_slug = categorySlug name, cat_description = None \<rparr>"

definition emptyItem :: item where
  "emptyItem = \<lparr> item_title = None, item_post_type = None, item_post_id = None,
                  item_attachment_url = None, item_status = None, item_post_name = None,
                  item_content = None, item_excerpt = None, item_pubDate = None,
                  item_creator = None, item_category = None, item_postmeta = None \<rparr>"

text \<open>An attachment record that the first pass indexes under an identifier; an
  attachment item, a post item, and the export of the end-to-end scenario: two published
  posts, one of them with a thumbnail reference, a draft, and the attachment, which stands
  after the posts.\<close>

definition attachmentFor :: "string \<Rightarrow> item \<Rightarrow> bool" where
  "attachmentFor tid a =
     (item_post_type a = Some ''attachment'' \<and> item_post_id a = Some tid \<and>
      truthy (item_attachment_url a))"

definition attachmentItem :: "string \<Rightarrow> string \<Rightarrow> item" where
  "attachmentItem aid url =
     emptyItem\<lparr>item_post_type := Some ''attachment'', item_post_id := Some aid,
               item_attachment_url := Some url\<rparr>"

definition postItem :: "string \<Rightarrow> string \<Rightarrow> string option \<Rightarrow> item" where
  "postItem s st thumb =
     emptyItem\<lparr>item_title := Some ''Hello'', item_post_type := Some ''post'',
               item_status := Some st, item_post_name := Some s,
               item_content := Some ''<p>hi</p>'',
               item_postmeta := Some [(Some ''_edit_last'', Some ''1''),
                                      (Some ''_thumbnail_id'', thumb)]\<rparr>"

definition scenarioItems :: "item list" where
  "scenarioItems =
     [postItem ''one'' ''publish'' (Some ''42''), postItem ''two'' ''publish'' None,
      postItem ''three'' ''draft'' None, attachmentItem ''42'' ''http://old.example/a.png'']"

text \<open>An image element with a source address, and the quiet environment with an image
  service whose first answer is an error.\<close>

definition imgTag :: "string \<Rightarrow> string" where
  "imgTag url = ''<img src='' @ [CHR 0x22] @ url @ [CHR 0x22] @ ''>''"


definition emptyStats :: import_stats where
  "emptyStats = \<lparr> successCount = 0, skipCount = 0, failCount = 0, imageFailCount = 0 \<rparr>"

text \<open>The results of a sequence of steps, up to the first one that throws.\<close>

fun collect :: "(string + 'a) list \<Rightarrow> string + 'a list" where
  "collect [] = Inr []"
| "collect (Inl err # rs) = Inl err"
| "collect (Inr x # rs) = (case collect rs of Inl err \<Rightarrow> Inl err | Inr xs \<Rightarrow> Inr (x # xs))"

text \<open>Which items the second pass keeps, and which it skips with a line.\<close>

definition eligible :: "item \<Rightarrow> bool" where
  "eligible it = (item_post_type it = Some ''post'' \<and> item_status it = Some ''publish'')"

definition skippedWithLine :: "item \<Rightarrow> bool" where
  "skippedWithLine it = (item_post_type it = Some ''post'' \<and> item_status it \<noteq> Some ''publish'')"





section \<open>Properties of the slug derivation\<close>

lemma hyphen_not_alnum: "\<not> isAlnum CHR ''-''"
  by (simp add: isAlnum_def)

lemma alnum_not_upper:
  "isAlnum c \<or> c = CHR ''-'' \<Longrightarrow> c \<notin> set ''ABCDEFGHIJKLMNOPQRSTUVWXYZ''"
  unfolding isAlnum_def by (elim disjE) auto

lemma lowerChar_fix:
  assumes "isAlnum c \<or> c = CHR ''-''"
  shows "lowerChar c = c"
proof -
  from assms have "c \<notin> set ''ABCDEFGHIJKLMNOPQRSTUVWXYZ''"
    by (rule alnum_not_upper)
  then have "map_of (zip ''ABCDEFGHIJKLMNOPQRSTUVWXYZ'' ''abcdefghijklmnopqrstuvwxyz'') c = None"
    by (subst map_of_zip_is_None) simp_all
  then show ?thesis by (simp add: lowerChar_def)
qed

lemma toLowerCase_fix:
  "list_all (\<lambda>c. isAlnum c \<or> c = CHR ''-'') s \<Longrightarrow> toLowerCase s = s"
  by (induction s) (simp_all add: toLowerCase_def lowerChar_fix)

lemma replaceNonAlnumRuns_fix:
  "list_all (\<lambda>c. isAlnum c \<or> c = CHR ''-'') s \<Longrightarrow> noHyphenRun s \<Longrightarrow>
   replaceNonAlnumRuns s = s"
  by (induction s rule: noHyphenRun.induct) (auto simp: hyphen_not_alnum)

lemma dropWhile_hd_stays: "xs \<noteq> [] \<Longrightarrow> \<not> P (hd xs) \<Longrightarrow> dropWhile P xs = xs"
  by (cases xs) auto

lemma stripHyphens_fix:
  assumes "s = [] \<or> (hd s \<noteq> CHR ''-'' \<and> last s \<noteq> CHR ''-'')"
  shows "stripHyphens s = s"
proof (cases s rule: rev_cases)
  case Nil
  then show ?thesis by (simp add: stripHyphens_def)
next
  case (snoc ys y)
  then have ne: "s \<noteq> []" by simp
  with assms have h: "hd s \<noteq> CHR ''-''" by simp
  from assms snoc have l: "y \<noteq> CHR ''-''" by simp
  have front: "dropWhile (\<lambda>c. c = CHR ''-'') s = s"
    using ne h by (rule dropWhile_hd_stays)
  from l snoc have "dropWhile (\<lambda>c. c = CHR ''-'') (rev s) = rev s" by simp
  with front show ?thesis by (simp add: stripHyphens_def)
qed

text \<open>
  Claim C10. Deriving a slug (lower-case, runs of characters outside \<open>[a-z0-9]\<close> to one
  hyphen, hyphens stripped at both ends) from a string that is already a valid slug gives
  the same string back.
\<close>

theorem categorySlug_idempotent: "validSlug s \<Longrightarrow> categorySlug s = s"
  by (simp add: validSlug_def categorySlug_def toLowerCase_fix replaceNonAlnumRuns_fix
      stripHyphens_fix)

theorem categorySlug_idempotent_witness:
  "validSlug ''case-studies'' \<and> categorySlug ''case-studies'' = ''case-studies''"
proof -
  have v: "validSlug ''case-studies''"
    by (simp add: validSlug_def isAlnum_def)
  from categorySlug_idempotent [OF v] v show ?thesis by simp
qed


text \<open>Every derived slug is a valid slug, so deriving twice is deriving once.\<close>

lemma replaceNonAlnumRuns_chars:
  "list_all (\<lambda>c. isAlnum c \<or> c = CHR ''-'') (replaceNonAlnumRuns s)"
  by (induction s rule: replaceNonAlnumRuns.induct) auto

lemma replaceNonAlnumRuns_hd:
  "s \<noteq> [] \<Longrightarrow> isAlnum (hd s) \<Longrightarrow> hd (replaceNonAlnumRuns s) = hd s \<and> replaceNonAlnumRuns s \<noteq> []"
  by (cases s) auto

lemma noHyphenRun_Cons:
  "noHyphenRun (c # cs) \<longleftrightarrow> (cs = [] \<or> \<not> (c = CHR ''-'' \<and> hd cs = CHR ''-'')) \<and> noHyphenRun cs"
  by (cases cs) auto

lemma dropWhile_not_alnum_hd:
  "dropWhile (\<lambda>x. \<not> isAlnum x) cs \<noteq> [] \<Longrightarrow> isAlnum (hd (dropWhile (\<lambda>x. \<not> isAlnum x) cs))"
  using hd_dropWhile [of "\<lambda>x. \<not> isAlnum x" cs] by simp

lemma replaceNonAlnumRuns_noHyphenRun: "noHyphenRun (replaceNonAlnumRuns s)"
proof (induction s rule: replaceNonAlnumRuns.induct)
  case 1
  then show ?case by simp
next
  case (2 c cs)
  show ?case
  proof (cases "isAlnum c")
    case True
    with 2 show ?thesis by (auto simp: noHyphenRun_Cons hyphen_not_alnum)
  next
    case False
    let ?d = "dropWhile (\<lambda>x. \<not> isAlnum x) cs"
    from False 2 have ih: "noHyphenRun (replaceNonAlnumRuns ?d)" by simp
    have "replaceNonAlnumRuns ?d = [] \<or> hd (replaceNonAlnumRuns ?d) \<noteq> CHR ''-''"
    proof (cases "?d = []")
      case True
      show ?thesis unfolding True by simp
    next
      case ne: False
      from dropWhile_not_alnum_hd [OF ne] replaceNonAlnumRuns_hd [OF ne]
      show ?thesis by (auto simp: hyphen_not_alnum)
    qed
    with False ih show ?thesis by (auto simp: noHyphenRun_Cons)
  qed
qed

lemma noHyphenRun_append:
  "noHyphenRun (xs @ ys) \<longleftrightarrow>
     noHyphenRun xs \<and> noHyphenRun ys \<and>
     (xs = [] \<or> ys = [] \<or> \<not> (last xs = CHR ''-'' \<and> hd ys = CHR ''-''))"
  by (induction xs rule: noHyphenRun.induct) (auto simp: noHyphenRun_Cons)

lemma noHyphenRun_rev: "noHyphenRun (rev xs) = noHyphenRun xs"
  by (induction xs) (auto simp: noHyphenRun_append noHyphenRun_Cons last_rev hd_rev)

lemma noHyphenRun_dropWhile: "noHyphenRun xs \<Longrightarrow> noHyphenRun (dropWhile P xs)"
  by (induction xs) (auto simp: noHyphenRun_Cons)

lemma strip_ends:
  fixes s :: string
  defines "a \<equiv> dropWhile (\<lambda>c. c = CHR ''-'') s"
  defines "b \<equiv> dropWhile (\<lambda>c. c = CHR ''-'') (rev a)"
  shows "rev b = [] \<or> (hd (rev b) \<noteq> CHR ''-'' \<and> last (rev b) \<noteq> CHR ''-'')"
proof (cases "b = []")
  case True
  then show ?thesis by simp
next
  case False
  have hb: "hd b \<noteq> CHR ''-''"
    using False hd_dropWhile [of "\<lambda>c. c = CHR ''-''" "rev a"] unfolding b_def by blast
  with False have l: "last (rev b) \<noteq> CHR ''-''" by (simp add: last_rev)
  have ane: "a \<noteq> []"
  proof
    assume "a = []"
    then have "b = []" unfolding b_def by simp
    with False show False by simp
  qed
  have ha: "hd a \<noteq> CHR ''-''"
    using ane hd_dropWhile [of "\<lambda>c. c = CHR ''-''" s] unfolding a_def by blast
  have "rev a = takeWhile (\<lambda>c. c = CHR ''-'') (rev a) @ b"
    unfolding b_def by (rule takeWhile_dropWhile_id [symmetric])
  then have "rev (rev a) = rev (takeWhile (\<lambda>c. c = CHR ''-'') (rev a) @ b)" by (rule arg_cong)
  then have "a = rev b @ rev (takeWhile (\<lambda>c. c = CHR ''-'') (rev a))"
    by (simp only: rev_rev_ident rev_append)
  then have "hd a = hd (rev b @ rev (takeWhile (\<lambda>c. c = CHR ''-'') (rev a)))" by (rule arg_cong)
  moreover from False have "rev b \<noteq> []" by simp
  then have "hd (rev b @ rev (takeWhile (\<lambda>c. c = CHR ''-'') (rev a))) = hd (rev b)"
    by (rule hd_append2)
  ultimately have "hd a = hd (rev b)" by (rule trans)
  with ha l show ?thesis by simp
qed

lemma stripHyphens_valid:
  assumes "list_all (\<lambda>c. isAlnum c \<or> c = CHR ''-'') s" and "noHyphenRun s"
  shows "validSlug (stripHyphens s)"
proof -
  let ?P = "\<lambda>c. c = CHR ''-''"
  let ?a = "dropWhile ?P s"
  let ?b = "dropWhile ?P (rev ?a)"
  have 1: "set ?a \<subseteq> set s" by (auto dest: set_dropWhileD)
  have 2: "set ?b \<subseteq> set (rev ?a)" by (auto dest: set_dropWhileD)
  from 1 2 have "set (rev ?b) \<subseteq> set s" by auto
  with assms(1) have chars: "list_all (\<lambda>c. isAlnum c \<or> c = CHR ''-'') (rev ?b)"
    unfolding list_all_iff by blast
  have run: "noHyphenRun (rev ?b)"
    using assms(2) by (simp add: noHyphenRun_rev noHyphenRun_dropWhile)
  note ends = strip_ends [of s]
  have "validSlug (rev ?b)"
    unfolding validSlug_def using chars run ends by blast
  then show ?thesis by (simp only: stripHyphens_def)
qed

lemma categorySlug_valid: "validSlug (categorySlug s)"
  unfolding categorySlug_def
  by (rule stripHyphens_valid) (rule replaceNonAlnumRuns_chars, rule replaceNonAlnumRuns_noHyphenRun)

lemma categorySlug_fixes_valid: "validSlug s \<Longrightarrow> categorySlug s = s"
  by (simp add: validSlug_def categorySlug_def toLowerCase_fix replaceNonAlnumRuns_fix
      stripHyphens_fix)

lemma categorySlug_twice: "categorySlug (categorySlug s) = categorySlug s"
  using categorySlug_valid by (rule categorySlug_fixes_valid)

section \<open>Properties of the content store\<close>

lemma postBySlug_None_iff: "postBySlug d s = None \<longleftrightarrow> s \<notin> slug ` set (posts d)"
  by (auto simp: postBySlug_def find_None_iff)

lemma postBySlug_Some_slug: "postBySlug d s = Some p \<Longrightarrow> slug p = s \<and> p \<in> set (posts d)"
  by (auto simp: postBySlug_def find_Some_iff)

lemma posts_create_existing:
  "s \<in> slug ` set (posts d) \<Longrightarrow> slug args = s \<Longrightarrow>
   posts_create now args d = (Inl (slugExistsMessage ''Post'' s), d)"
  using postBySlug_None_iff [of d s]
  by (auto simp: posts_create_def split: option.splits)

lemma posts_create_fresh:
  "slug args \<notin> slug ` set (posts d) \<Longrightarrow>
   posts_create now args d =
     (Inr (nextId d),
      d\<lparr>posts := posts d @ [insertedPost now (nextId d) args], nextId := Suc (nextId d)\<rparr>)"
  using postBySlug_None_iff [of d "slug args"]
  by (simp add: posts_create_def Let_def)

lemma insertedPost_slug: "slug (insertedPost now i args) = slug args"
  by (simp add: insertedPost_def)

text \<open>
  Claim C6. The create mutation of the content store, called with a slug that a stored post
  already has, throws and leaves the store as it was; called with a slug that no stored post
  has, it inserts exactly one post (appended, with that slug) and returns its identifier.
  So a store whose slugs are pairwise distinct stays so, whatever the caller checked before.
\<close>

theorem posts_create_never_duplicates:
  assumes "distinct (map slug (posts d))"
  shows "posts_create now args d =
           (if slug args \<in> slug ` set (posts d)
            then (Inl (slugExistsMessage ''Post'' (slug args)), d)
            else (Inr (nextId d),
                  d\<lparr>posts := posts d @ [insertedPost now (nextId d) args],
                    nextId := Suc (nextId d)\<rparr>)) \<and>
         slug (insertedPost now (nextId d) args) = slug args \<and>
         post_id (insertedPost now (nextId d) args) = nextId d \<and>
         distinct (map slug (posts (snd (posts_create now args d))))"
proof (cases "slug args \<in> slug ` set (posts d)")
  case True
  then have "posts_create now args d = (Inl (slugExistsMessage ''Post'' (slug args)), d)"
    by (simp add: posts_create_existing)
  with True assms show ?thesis by (simp add: insertedPost_def)
next
  case False
  note c = posts_create_fresh [OF False, of now]
  from assms False have "distinct (map slug (posts d @ [insertedPost now (nextId d) args]))"
    by (simp add: insertedPost_slug)
  with c False show ?thesis by (simp add: insertedPost_def)
qed

theorem posts_create_never_duplicates_witness:
  "distinct (map slug (posts (snd (posts_create 7 (sampleArgs ''first'') emptyDb)))) \<and>
   fst (posts_create 8 (sampleArgs ''first'') (snd (posts_create 7 (sampleArgs ''first'') emptyDb)))
     = Inl (slugExistsMessage ''Post'' ''first'') \<and>
   snd (posts_create 8 (sampleArgs ''first'') (snd (posts_create 7 (sampleArgs ''first'') emptyDb)))
     = snd (posts_create 7 (sampleArgs ''first'') emptyDb) \<and>
   fst (posts_create 8 (sampleArgs ''second'') (snd (posts_create 7 (sampleArgs ''first'') emptyDb)))
     = Inr 1"
proof -
  let ?d = "snd (posts_create 7 (sampleArgs ''first'') emptyDb)"
  have d0: "distinct (map slug (posts emptyDb))" by (simp add: emptyDb_def)
  have d: "distinct (map slug (posts ?d))"
    using posts_create_never_duplicates [OF d0, of 7 "sampleArgs ''first''"] by blast
  have s: "slug (sampleArgs s) = s" for s
    by (simp add: sampleArgs_def createArgs_def samplePost_def)
  have p: "posts_create 7 (sampleArgs ''first'') emptyDb =
             (Inr 0, \<lparr> posts = [insertedPost 7 0 (sampleArgs ''first'')], categories = [],
                      nextId = Suc 0 \<rparr>)"
    using posts_create_never_duplicates [OF d0, of 7 "sampleArgs ''first''"]
    by (simp add: emptyDb_def)
  from posts_create_never_duplicates [OF d, of 8 "sampleArgs ''first''"]
       posts_create_never_duplicates [OF d, of 8 "sampleArgs ''second''"] d
  show ?thesis by (simp add: p s insertedPost_slug)
qed


section \<open>Properties of the parser\<close>

lemma extractPosts_eq:
  "extractPosts att items =
     (case collect (map (extractPost att) (filter eligible items)) of
        Inl err \<Rightarrow> Inl err
      | Inr found \<Rightarrow>
          Inr (found,
               map (\<lambda>it. LogSkippingNonPublished (orElse (item_title it) ''Untitled''))
                   (filter skippedWithLine items)))"
  by (induction items)
     (auto simp: eligible_def [abs_def] skippedWithLine_def [abs_def] split: sum.splits)

text \<open>
  Claim C2, as the code has it. The posts handed to the importer are exactly the items with
  type \<open>post\<close> and status \<open>publish\<close>, in the order of the export. An item of
  type \<open>post\<close> with another status is skipped with one line; an item of another type is
  skipped without a line. No skipped item makes the function throw: it throws only when
  the extraction of an eligible post does, and returns otherwise.
\<close>

theorem parse_keeps_published_posts_only:
  "parseWordPressXML items =
     (case collect (map (extractPost (buildAttachments items [])) (filter eligible items)) of
        Inl err \<Rightarrow> Inl err
      | Inr found \<Rightarrow>
          Inr (found,
               [LogFoundItems (length items),
                LogFoundAttachments (length (buildAttachments items []))] @
               map (\<lambda>it. LogSkippingNonPublished (orElse (item_title it) ''Untitled''))
                   (filter skippedWithLine items) @
               [LogFoundPosts (length found)]))"
  by (simp add: parseWordPressXML_def extractPosts_eq Let_def split: sum.splits)

text \<open>A page in draft status is left out, and no line is printed for it.\<close>

theorem non_post_item_skipped_silently:
  "parseWordPressXML [emptyItem\<lparr>item_post_type := Some ''page'', item_status := Some ''draft'',
                                 item_title := Some ''About us''\<rparr>] =
     Inr ([], [LogFoundItems 1, LogFoundAttachments 0, LogFoundPosts 0])"
  by (simp add: parseWordPressXML_def emptyItem_def)


section \<open>Properties of the importer\<close>

lemma store_remoteCall [simp]: "store (remoteCall ev w) = store w"
  by (simp add: remoteCall_def)

lemma store_print [simp]: "store (print ls w) = store w"
  by (simp add: print_def)

lemma tick_print [simp]: "tick (print ls w) = tick w"
  by (simp add: print_def)

lemma trace_print [simp]: "trace (print ls w) = trace w"
  by (simp add: print_def)

lemma postBySlug_Some_iff: "(\<exists>p. postBySlug d s = Some p) \<longleftrightarrow> s \<in> slug ` set (posts d)"
  using postBySlug_None_iff [of d s] by auto

lemma tryImport_existing:
  assumes "convexFault e (tick w) = None" and "wp_slug post \<in> slug ` set (posts (store w))"
  shows "tryImport e post st w =
           (Inr (st\<lparr>skipCount := Suc (skipCount st)\<rparr>),
            print [LogAlreadyExists] (remoteCall (QueryPostsGetBySlug (wp_slug post)) w))"
proof -
  from assms(2) obtain p where "postBySlug (store w) (wp_slug post) = Some p"
    using postBySlug_Some_iff by blast
  with assms(1) show ?thesis
    by (simp add: tryImport_def query_posts_getBySlug_def posts_getBySlug_def Let_def)
qed

text \<open>
  Claim C1. When the existence query for a post returns a record (the call goes through and
  a stored post has the slug), the importer makes that one query and nothing else for the
  post: no converter call, no category call, no upload and no create mutation enter the
  trace, the store is untouched, only the skip counter grows by one, and the loop goes on
  with the next post.
\<close>

theorem existing_post_only_skipped:
  assumes "convexFault e (tick w) = None" and "wp_slug post \<in> slug ` set (posts (store w))"
  shows "importLoop e n i (post # rest) st w =
           importLoop e n (Suc i) rest (st\<lparr>skipCount := Suc (skipCount st)\<rparr>)
             (w\<lparr>tick := Suc (tick w),
                trace := trace w @ [QueryPostsGetBySlug (wp_slug post)],
                console := console w @ [LogProcessing (Suc i) n (wp_title post), LogAlreadyExists]\<rparr>)"
proof -
  let ?w = "print [LogProcessing (Suc i) n (wp_title post)] w"
  from assms have "tryImport e post st ?w =
           (Inr (st\<lparr>skipCount := Suc (skipCount st)\<rparr>),
            print [LogAlreadyExists] (remoteCall (QueryPostsGetBySlug (wp_slug post)) ?w))"
    by (intro tryImport_existing) simp_all
  then show ?thesis by (simp add: print_def remoteCall_def)
qed

theorem existing_post_only_skipped_witness:
  "convexFault quietEnv (tick (world0\<lparr>store := helloDb\<rparr>)) = None \<and>
   wp_slug (samplePost ''hello'' ''<p>hi</p>'') \<in> slug ` set (posts (store (world0\<lparr>store := helloDb\<rparr>))) \<and>
   importLoop quietEnv 1 0 [samplePost ''hello'' ''<p>hi</p>''] emptyStats (world0\<lparr>store := helloDb\<rparr>) =
     (emptyStats\<lparr>skipCount := 1\<rparr>,
      \<lparr> store = helloDb, tick = 1, trace = [QueryPostsGetBySlug ''hello''],
        console = [LogProcessing 1 1 ''Hello'', LogAlreadyExists] \<rparr>)"
proof -
  have f: "convexFault quietEnv (tick (world0\<lparr>store := helloDb\<rparr>)) = None"
    by (simp add: quietEnv_def)
  have s: "wp_slug (samplePost ''hello'' ''<p>hi</p>'') \<in>
             slug ` set (posts (store (world0\<lparr>store := helloDb\<rparr>)))"
    by (simp add: samplePost_def helloDb_def insertedPost_slug sampleArgs_def createArgs_def)
  from existing_post_only_skipped [OF f s, of 1 0 "[]" emptyStats] f s
  show ?thesis by (simp add: world0_def samplePost_def emptyStats_def)
qed

lemma tryImport_Inr_counts:
  assumes "tryImport e post st w = (Inr st', w')"
  shows "successCount st' + skipCount st' = Suc (successCount st + skipCount st) \<and>
         failCount st' = failCount st"
  using assms unfolding tryImport_def
  by (auto split: prod.splits sum.splits option.splits if_splits)

lemma importLoop_accounting:
  "importLoop e n i wps st w = (st', w') \<Longrightarrow>
   successCount st' + skipCount st' + failCount st' =
   successCount st + skipCount st + failCount st + length wps"
proof (induction wps arbitrary: i st w)
  case Nil
  then show ?case by simp
next
  case (Cons post rest)
  obtain r w1 where t: "tryImport e post st (print [LogProcessing (Suc i) n (wp_title post)] w) = (r, w1)"
    by (cases "tryImport e post st (print [LogProcessing (Suc i) n (wp_title post)] w)")
  show ?case
  proof (cases r)
    case (Inl err)
    with t Cons.prems have
      "importLoop e n (Suc i) rest (st\<lparr>failCount := Suc (failCount st)\<rparr>)
         (print [ErrFailedToImport err] w1) = (st', w')"
      by simp
    from Cons.IH [OF this] show ?thesis by simp
  next
    case (Inr st1)
    with t Cons.prems have "importLoop e n (Suc i) rest st1 w1 = (st', w')" by simp
    from Cons.IH [OF this] tryImport_Inr_counts [OF t [unfolded Inr]] show ?thesis by simp
  qed
qed

lemma tryImport_throws:
  assumes "query_posts_getBySlug e (wp_slug post) w = (Inr None, w1)" and "\<not> isDryRun e"
    and "convertContentToMarkdown e (wp_content post) (wp_title post) w1 = (Inl err, wE) \<or>
         (\<exists>markdown k w2. convertContentToMarkdown e (wp_content post) (wp_title post) w1 =
                              (Inr (markdown, k), w2) \<and>
            (convertExcerpt e post w2 = (Inl err, wE) \<or>
             (\<exists>ex w3. convertExcerpt e post w2 = (Inr ex, w3) \<and>
                (resolveCategory e post w3 = (Inl err, wE) \<or>
                 (\<exists>cid w4 img failed w5.
                    resolveCategory e post w3 = (Inr cid, w4) \<and>
                    importFeaturedImage e post w4 = ((img, failed), w5) \<and>
                    mutation_posts_create e (createArgs post markdown ex img cid) w5 =
                      (Inl err, wE))))))"
  shows "tryImport e post st w = (Inl err, wE)"
  using assms unfolding tryImport_def by auto

text \<open>
  Claim C3, as the code has it. Take a post that is not in the store, in a live run. If the
  content transform throws, or the excerpt conversion, or the category resolution, or the
  create mutation, then the loop adds one to the failure counter, prints the error, changes
  no other counter and goes on with the next post. Whatever happens, every post of the
  list is counted exactly once in the three counters, so no error leaves the loop.
  \<open>importPosts\<close> stores no error, and what it prints does not name the slug.
\<close>

theorem import_error_counted_once:
  assumes "query_posts_getBySlug e (wp_slug post)
             (print [LogProcessing (Suc i) n (wp_title post)] w) = (Inr None, w1)"
    and "\<not> isDryRun e"
    and "convertContentToMarkdown e (wp_content post) (wp_title post) w1 = (Inl err, wE) \<or>
         (\<exists>markdown k w2. convertContentToMarkdown e (wp_content post) (wp_title post) w1 =
                              (Inr (markdown, k), w2) \<and>
            (convertExcerpt e post w2 = (Inl err, wE) \<or>
             (\<exists>ex w3. convertExcerpt e post w2 = (Inr ex, w3) \<and>
                (resolveCategory e post w3 = (Inl err, wE) \<or>
                 (\<exists>cid w4 img failed w5.
                    resolveCategory e post w3 = (Inr cid, w4) \<and>
                    importFeaturedImage e post w4 = ((img, failed), w5) \<and>
                    mutation_posts_create e (createArgs post markdown ex img cid) w5 =
                      (Inl err, wE))))))"
  shows "importLoop e n i (post # rest) st w =
           importLoop e n (Suc i) rest (st\<lparr>failCount := Suc (failCount st)\<rparr>)
             (print [ErrFailedToImport err] wE) \<and>
         successCount (fst (importLoop e n i (post # rest) st w)) +
           skipCount (fst (importLoop e n i (post # rest) st w)) +
           failCount (fst (importLoop e n i (post # rest) st w)) =
         successCount st + skipCount st + failCount st + Suc (length rest)"
proof -
  from tryImport_throws [OF assms, of st]
  have "importLoop e n i (post # rest) st w =
           importLoop e n (Suc i) rest (st\<lparr>failCount := Suc (failCount st)\<rparr>)
             (print [ErrFailedToImport err] wE)"
    by simp
  moreover have "successCount (fst (importLoop e n i (post # rest) st w)) +
           skipCount (fst (importLoop e n i (post # rest) st w)) +
           failCount (fst (importLoop e n i (post # rest) st w)) =
         successCount st + skipCount st + failCount st + length (post # rest)"
    by (rule importLoop_accounting [of e n i "post # rest" st w _ "snd (importLoop e n i (post # rest) st w)"])
       simp
  ultimately show ?thesis by simp
qed


lemma imageUrlsOf_plain: "imageUrlsOf ''<p>hi</p>'' = []"
  by (simp add: imageUrlsOf.simps execImgAt_def imgMatches_def imgRegexHead_def ends.simps)

lemma importPosts_brokenConverter:
  "importPosts brokenConverterEnv [samplePost s ''<p>hi</p>''] world0 =
     (emptyStats\<lparr>failCount := 1\<rparr>,
      \<lparr> store = emptyDb, tick = 1,
        trace = [QueryPostsGetBySlug s, Turndown ''<p>hi</p>''],
        console = [LogImportHeader False, LogProcessing 1 1 ''Hello'',
                   ErrFailedToImport ''conversion failed'',
                   LogImportSummary False 0 0 1 0] \<rparr>)"
  by (simp add: importPosts_def tryImport_def query_posts_getBySlug_def posts_getBySlug_def
      postBySlug_def convertContentToMarkdown_def callTurndown_def imageUrlsOf_plain
      brokenConverterEnv_def quietEnv_def samplePost_def world0_def emptyDb_def emptyStats_def
      print_def remoteCall_def)

text \<open>Two runs that fail on posts with different slugs end with the same counters and the
  same printed lines: the failure is not recorded under the slug.\<close>

theorem failure_record_not_keyed_by_slug:
  "wp_slug (samplePost ''first-post'' ''<p>hi</p>'') \<noteq> wp_slug (samplePost ''second-post'' ''<p>hi</p>'') \<and>
   failCount (fst (importPosts brokenConverterEnv [samplePost ''first-post'' ''<p>hi</p>''] world0)) = 1 \<and>
   fst (importPosts brokenConverterEnv [samplePost ''first-post'' ''<p>hi</p>''] world0) =
   fst (importPosts brokenConverterEnv [samplePost ''second-post'' ''<p>hi</p>''] world0) \<and>
   console (snd (importPosts brokenConverterEnv [samplePost ''first-post'' ''<p>hi</p>''] world0)) =
   console (snd (importPosts brokenConverterEnv [samplePost ''second-post'' ''<p>hi</p>''] world0)) \<and>
   console (snd (importPosts brokenConverterEnv [samplePost ''first-post'' ''<p>hi</p>''] world0)) =
     [LogImportHeader False, LogProcessing 1 1 ''Hello'',
      ErrFailedToImport ''conversion failed'', LogImportSummary False 0 0 1 0]"
  by (simp add: importPosts_brokenConverter) (simp add: samplePost_def emptyStats_def)

theorem import_error_counted_once_witness:
  "query_posts_getBySlug brokenConverterEnv (wp_slug (samplePost ''a'' ''<p>hi</p>''))
       (print [LogProcessing (Suc 0) 1 (wp_title (samplePost ''a'' ''<p>hi</p>''))] world0) =
     (Inr None, \<lparr> store = emptyDb, tick = 1, trace = [QueryPostsGetBySlug ''a''],
                  console = [LogProcessing 1 1 ''Hello''] \<rparr>) \<and>
   \<not> isDryRun brokenConverterEnv \<and>
   convertContentToMarkdown brokenConverterEnv (wp_content (samplePost ''a'' ''<p>hi</p>''))
       (wp_title (samplePost ''a'' ''<p>hi</p>''))
       \<lparr> store = emptyDb, tick = 1, trace = [QueryPostsGetBySlug ''a''],
         console = [LogProcessing 1 1 ''Hello''] \<rparr> =
     (Inl ''conversion failed'',
      \<lparr> store = emptyDb, tick = 1, trace = [QueryPostsGetBySlug ''a'', Turndown ''<p>hi</p>''],
        console = [LogProcessing 1 1 ''Hello''] \<rparr>) \<and>
   importLoop brokenConverterEnv 1 0 [samplePost ''a'' ''<p>hi</p>''] emptyStats world0 =
     (emptyStats\<lparr>failCount := 1\<rparr>,
      \<lparr> store = emptyDb, tick = 1, trace = [QueryPostsGetBySlug ''a'', Turndown ''<p>hi</p>''],
        console = [LogProcessing 1 1 ''Hello'', ErrFailedToImport ''conversion failed''] \<rparr>)"
proof -
  let ?p = "samplePost ''a'' ''<p>hi</p>''"
  let ?w1 = "\<lparr> store = emptyDb, tick = 1, trace = [QueryPostsGetBySlug ''a''],
               console = [LogProcessing 1 1 ''Hello''] \<rparr>"
  let ?wE = "\<lparr> store = emptyDb, tick = 1, trace = [QueryPostsGetBySlug ''a'', Turndown ''<p>hi</p>''],
               console = [LogProcessing 1 1 ''Hello''] \<rparr>"
  have q: "query_posts_getBySlug brokenConverterEnv (wp_slug ?p)
             (print [LogProcessing (Suc 0) 1 (wp_title ?p)] world0) = (Inr None, ?w1)"
    by (simp add: query_posts_getBySlug_def posts_getBySlug_def postBySlug_def
        brokenConverterEnv_def quietEnv_def samplePost_def world0_def emptyDb_def print_def
        remoteCall_def)
  have d: "\<not> isDryRun brokenConverterEnv"
    by (simp add: brokenConverterEnv_def quietEnv_def)
  have c: "convertContentToMarkdown brokenConverterEnv (wp_content ?p) (wp_title ?p) ?w1 =
             (Inl ''conversion failed'', ?wE)"
    by (simp add: convertContentToMarkdown_def callTurndown_def imageUrlsOf_plain
        brokenConverterEnv_def quietEnv_def samplePost_def)
  from import_error_counted_once [OF q d disjI1 [OF c], of "[]" emptyStats] q d c
  show ?thesis by (simp add: print_def emptyStats_def)
qed


section \<open>Properties of the retrying upload\<close>

lemma tick_remoteCall [simp]: "tick (remoteCall ev w) = Suc (tick w)"
  by (simp add: remoteCall_def)

lemma tick_sleep [simp]: "tick (sleep ms w) = tick w"
  by (simp add: sleep_def)

lemma store_sleep [simp]: "store (sleep ms w) = store w"
  by (simp add: sleep_def)

lemma upload_attempt_fails:
  assumes "cloudflareResponse e (tick w) url fn = Inl m"
  shows "uploadToCloudflare e url fn a w =
           (if a < RETRY_ATTEMPTS
            then uploadToCloudflare e url fn (Suc a)
                   (sleep RETRY_DELAY_MS (print [LogUploadFailedRetrying m RETRY_DELAY_MS]
                      (remoteCall (UploadImageFromUrl url fn) (print [LogUploading a] w))))
            else (None, print [LogUploadFailedAfter RETRY_ATTEMPTS m]
                      (remoteCall (UploadImageFromUrl url fn) (print [LogUploading a] w))))"
  by (subst uploadToCloudflare.simps) (simp add: uploadImageFromUrl_def assms)

lemma uploadToCloudflare_three_failures:
  assumes "cloudflareResponse e (tick w) url fn = Inl m1"
    and "cloudflareResponse e (Suc (tick w)) url fn = Inl m2"
    and "cloudflareResponse e (Suc (Suc (tick w))) url fn = Inl m3"
  shows "uploadToCloudflare e url fn 1 w =
           (None,
            w\<lparr>tick := tick w + 3,
              trace := trace w @ [UploadImageFromUrl url fn, Sleep 2000,
                                  UploadImageFromUrl url fn, Sleep 2000,
                                  UploadImageFromUrl url fn],
              console := console w @ [LogUploading 1, LogUploadFailedRetrying m1 2000,
                                      LogUploading 2, LogUploadFailedRetrying m2 2000,
                                      LogUploading 3, LogUploadFailedAfter 3 m3]\<rparr>)"
proof -
  let ?w1 = "sleep RETRY_DELAY_MS (print [LogUploadFailedRetrying m1 RETRY_DELAY_MS]
               (remoteCall (UploadImageFromUrl url fn) (print [LogUploading 1] w)))"
  let ?w2 = "sleep RETRY_DELAY_MS (print [LogUploadFailedRetrying m2 RETRY_DELAY_MS]
               (remoteCall (UploadImageFromUrl url fn) (print [LogUploading 2] ?w1)))"
  have 1: "uploadToCloudflare e url fn 1 w = uploadToCloudflare e url fn 2 ?w1"
    using upload_attempt_fails [of e w url fn m1 1] assms(1)
    by (simp add: RETRY_ATTEMPTS_def numeral_2_eq_2)
  have t1: "tick ?w1 = Suc (tick w)" by simp
  have 2: "uploadToCloudflare e url fn 2 ?w1 = uploadToCloudflare e url fn 3 ?w2"
    using upload_attempt_fails [of e ?w1 url fn m2 2] assms(2)
    by (simp add: RETRY_ATTEMPTS_def numeral_3_eq_3 numeral_2_eq_2)
  have t2: "tick ?w2 = Suc (Suc (tick w))" by simp
  have 3: "uploadToCloudflare e url fn 3 ?w2 =
             (None, print [LogUploadFailedAfter RETRY_ATTEMPTS m3]
                      (remoteCall (UploadImageFromUrl url fn) (print [LogUploading 3] ?w2)))"
    using upload_attempt_fails [of e ?w2 url fn m3 3] assms(3)
    by (simp add: RETRY_ATTEMPTS_def)
  show ?thesis
    unfolding 1 2 3
    by (simp add: print_def sleep_def remoteCall_def RETRY_ATTEMPTS_def RETRY_DELAY_MS_def)
qed

text \<open>
  Claim C4. If the image service refuses the upload three times in a row, the retrying
  wrapper \<open>uploadToCloudflare\<close> returns \<open>null\<close>: it has made exactly three upload
  calls, with a pause of 2000 ms after the first and after the second, and it throws
  nothing. Its caller \<open>processPost\<close> then adds one to the failure counter, records the
  failure under the slug of the post, makes no update mutation (the store is as before) and
  returns.
\<close>

theorem upload_gives_up_after_three_attempts:
  assumes "cloudflareResponse e (tick w) url (fileNameOf url (slug post)) = Inl m1"
    and "cloudflareResponse e (Suc (tick w)) url (fileNameOf url (slug post)) = Inl m2"
    and "cloudflareResponse e (Suc (Suc (tick w))) url (fileNameOf url (slug post)) = Inl m3"
    and "\<not> isDryRun e" and "isForce e \<or> \<not> truthy (featuredImage post)"
    and "featuredImages (slug post) = Some url" and "url \<noteq> []"
  shows "uploadToCloudflare e url (fileNameOf url (slug post)) 1 w =
           (None,
            w\<lparr>tick := tick w + 3,
              trace := trace w @ [UploadImageFromUrl url (fileNameOf url (slug post)), Sleep 2000,
                                  UploadImageFromUrl url (fileNameOf url (slug post)), Sleep 2000,
                                  UploadImageFromUrl url (fileNameOf url (slug post))],
              console := console w @ [LogUploading 1, LogUploadFailedRetrying m1 2000,
                                      LogUploading 2, LogUploadFailedRetrying m2 2000,
                                      LogUploading 3, LogUploadFailedAfter 3 m3]\<rparr>) \<and>
         processPost e post featuredImages index n st w =
           (st\<lparr>stat_failed := Suc (stat_failed st),
               stat_errors := stat_errors st @ [(slug post, ''Failed to upload to Cloudflare'')]\<rparr>,
            w\<lparr>tick := tick w + 3,
              trace := trace w @ [UploadImageFromUrl url (fileNameOf url (slug post)), Sleep 2000,
                                  UploadImageFromUrl url (fileNameOf url (slug post)), Sleep 2000,
                                  UploadImageFromUrl url (fileNameOf url (slug post))],
              console := console w @ [LogProcessing (Suc index) n (title post), LogSlug (slug post),
                                      LogWordPressUrl url,
                                      LogUploading 1, LogUploadFailedRetrying m1 2000,
                                      LogUploading 2, LogUploadFailedRetrying m2 2000,
                                      LogUploading 3, LogUploadFailedAfter 3 m3]\<rparr>)"
proof -
  let ?fn = "fileNameOf url (slug post)"
  let ?w1 = "print [LogWordPressUrl url]
               (print [LogProcessing (Suc index) n (title post), LogSlug (slug post)] w)"
  note up = uploadToCloudflare_three_failures [of e _ url ?fn m1 m2 m3]
  have a: "uploadToCloudflare e url ?fn 1 w = (None,
            w\<lparr>tick := tick w + 3,
              trace := trace w @ [UploadImageFromUrl url ?fn, Sleep 2000,
                                  UploadImageFromUrl url ?fn, Sleep 2000,
                                  UploadImageFromUrl url ?fn],
              console := console w @ [LogUploading 1, LogUploadFailedRetrying m1 2000,
                                      LogUploading 2, LogUploadFailedRetrying m2 2000,
                                      LogUploading 3, LogUploadFailedAfter 3 m3]\<rparr>)"
    using assms(1-3) by (rule up)
  have b: "uploadToCloudflare e url ?fn 1 ?w1 = (None,
            ?w1\<lparr>tick := tick ?w1 + 3,
              trace := trace ?w1 @ [UploadImageFromUrl url ?fn, Sleep 2000,
                                  UploadImageFromUrl url ?fn, Sleep 2000,
                                  UploadImageFromUrl url ?fn],
              console := console ?w1 @ [LogUploading 1, LogUploadFailedRetrying m1 2000,
                                      LogUploading 2, LogUploadFailedRetrying m2 2000,
                                      LogUploading 3, LogUploadFailedAfter 3 m3]\<rparr>)"
    using assms(1-3) by (intro up) simp_all
  have c: "processPost e post featuredImages index n st w =
           (st\<lparr>stat_failed := Suc (stat_failed st),
               stat_errors := stat_errors st @ [(slug post, ''Failed to upload to Cloudflare'')]\<rparr>,
            ?w1\<lparr>tick := tick ?w1 + 3,
              trace := trace ?w1 @ [UploadImageFromUrl url ?fn, Sleep 2000,
                                  UploadImageFromUrl url ?fn, Sleep 2000,
                                  UploadImageFromUrl url ?fn],
              console := console ?w1 @ [LogUploading 1, LogUploadFailedRetrying m1 2000,
                                      LogUploading 2, LogUploadFailedRetrying m2 2000,
                                      LogUploading 3, LogUploadFailedAfter 3 m3]\<rparr>)"
    using assms(4-7) unfolding processPost_def Let_def
    by (auto simp: b [unfolded One_nat_def] truthy_def)
  from a c show ?thesis by (simp add: print_def)
qed

theorem upload_gives_up_after_three_attempts_witness:
  "cloudflareResponse refusingUploadsEnv 0 ''http://old.example/a.png'' ''a.png'' =
     Inl ''Cloudflare Images upload failed'' \<and>
   \<not> isDryRun refusingUploadsEnv \<and> \<not> truthy (featuredImage helloDoc) \<and>
   [''hello'' \<mapsto> ''http://old.example/a.png''] (slug helloDoc) = Some ''http://old.example/a.png'' \<and>
   fileNameOf ''http://old.example/a.png'' (slug helloDoc) = ''a.png'' \<and>
   fst (uploadToCloudflare refusingUploadsEnv ''http://old.example/a.png'' ''a.png'' 1
          (world0\<lparr>store := helloDb\<rparr>)) = None \<and>
   trace (snd (uploadToCloudflare refusingUploadsEnv ''http://old.example/a.png'' ''a.png'' 1
          (world0\<lparr>store := helloDb\<rparr>))) =
     [UploadImageFromUrl ''http://old.example/a.png'' ''a.png'', Sleep 2000,
      UploadImageFromUrl ''http://old.example/a.png'' ''a.png'', Sleep 2000,
      UploadImageFromUrl ''http://old.example/a.png'' ''a.png''] \<and>
   fst (processPost refusingUploadsEnv helloDoc [''hello'' \<mapsto> ''http://old.example/a.png''] 0 1
          freshStats
          (world0\<lparr>store := helloDb\<rparr>)) =
     freshStats\<lparr>stat_failed := 1,
                  stat_errors := [(''hello'', ''Failed to upload to Cloudflare'')]\<rparr> \<and>
   store (snd (processPost refusingUploadsEnv helloDoc [''hello'' \<mapsto> ''http://old.example/a.png''] 0 1
          freshStats
          (world0\<lparr>store := helloDb\<rparr>))) = helloDb"
proof -
  let ?u = "''http://old.example/a.png''"
  let ?w = "world0\<lparr>store := helloDb\<rparr>"
  have s: "slug helloDoc = ''hello''"
    by (simp add: helloDoc_def insertedPost_slug sampleArgs_def createArgs_def samplePost_def)
  have fn: "fileNameOf ?u (slug helloDoc) = ''a.png''"
    by (simp add: fileNameOf_def)
  have r: "cloudflareResponse refusingUploadsEnv k ?u (fileNameOf ?u (slug helloDoc)) =
             Inl ''Cloudflare Images upload failed''" for k
    by (simp add: refusingUploadsEnv_def quietEnv_def)
  have d: "\<not> isDryRun refusingUploadsEnv" by (simp add: refusingUploadsEnv_def quietEnv_def)
  have f: "\<not> truthy (featuredImage helloDoc)"
    by (simp add: helloDoc_def insertedPost_def sampleArgs_def createArgs_def truthy_def)
  then have f': "isForce refusingUploadsEnv \<or> \<not> truthy (featuredImage helloDoc)" by simp
  have m: "[''hello'' \<mapsto> ?u] (slug helloDoc) = Some ?u" by (simp add: s)
  have n: "?u \<noteq> []" by simp
  note t = upload_gives_up_after_three_attempts
         [where e = refusingUploadsEnv and w = "?w" and url = "?u" and post = helloDoc
            and featuredImages = "[''hello'' \<mapsto> ?u]" and index = 0 and n = 1
            and st = freshStats]
  from t [OF r r r d f' m n] r [of 0] d f m fn
  show ?thesis by (simp add: world0_def s freshStats_def)
qed


section \<open>Properties of the category resolver\<close>

lemma find_append_None: "find P xs = None \<Longrightarrow> find P (xs @ [x]) = (if P x then Some x else None)"
  by (induction xs) (auto split: if_splits)

lemma categorySlug_case_studies: "categorySlug ''Case Studies'' = ''case-studies''"
  by (simp add: categorySlug_def stripHyphens_def toLowerCase_def lowerChar_def isAlnum_def)

lemma getOrCreateCategory_empty: "getOrCreateCategory e [] w = (Inr None, w)"
  by (simp add: getOrCreateCategory_def)

lemma getOrCreateCategory_found:
  assumes "name \<noteq> []" and "convexFault e (tick w) = None"
    and "categoryBySlug (store w) (categorySlug name) = Some c"
  shows "getOrCreateCategory e name w =
           (Inr (Some (cat_id c)),
            w\<lparr>tick := Suc (tick w),
              trace := trace w @ [QueryCategoriesGetBySlug (categorySlug name)]\<rparr>)"
  using assms
  by (simp add: getOrCreateCategory_def query_categories_getBySlug_def categories_getBySlug_def
      remoteCall_def Let_def)

lemma getOrCreateCategory_dry:
  assumes "name \<noteq> []" and "convexFault e (tick w) = None"
    and "categoryBySlug (store w) (categorySlug name) = None" and "isDryRun e"
  shows "getOrCreateCategory e name w =
           (Inr None,
            w\<lparr>tick := Suc (tick w),
              trace := trace w @ [QueryCategoriesGetBySlug (categorySlug name)],
              console := console w @ [LogDryRunWouldCreateCategory name]\<rparr>)"
  using assms
  by (simp add: getOrCreateCategory_def query_categories_getBySlug_def categories_getBySlug_def
      remoteCall_def print_def Let_def)

lemma getOrCreateCategory_created:
  assumes "name \<noteq> []" and "convexFault e (tick w) = None"
    and "convexFault e (Suc (tick w)) = None"
    and "categoryBySlug (store w) (categorySlug name) = None" and "\<not> isDryRun e"
  shows "getOrCreateCategory e name w =
           (Inr (Some (nextId (store w))),
            w\<lparr>store := (store w)\<lparr>categories := categories (store w) @
                                       [insertedCategory (nextId (store w)) name],
                                   nextId := Suc (nextId (store w))\<rparr>,
              tick := Suc (Suc (tick w)),
              trace := trace w @ [QueryCategoriesGetBySlug (categorySlug name),
                                  MutationCategoriesCreate name (categorySlug name)],
              console := console w @ [LogCreatingCategory name]\<rparr>)"
  using assms
  by (simp add: getOrCreateCategory_def query_categories_getBySlug_def categories_getBySlug_def
      mutation_categories_create_def categories_create_def insertedCategory_def
      remoteCall_def print_def Let_def)

lemma tryImport_dry_trace:
  assumes "isDryRun e"
  shows "trace (snd (tryImport e post st w)) = trace w @ [QueryPostsGetBySlug (wp_slug post)]"
  using assms
  by (simp add: tryImport_def query_posts_getBySlug_def remoteCall_def Let_def
      split: option.splits)

lemma importLoop_dry_trace:
  assumes "isDryRun e"
  shows "trace (snd (importLoop e n i wps st w)) =
           trace w @ map (\<lambda>post. QueryPostsGetBySlug (wp_slug post)) wps"
proof (induction wps arbitrary: i st w)
  case Nil
  then show ?case by simp
next
  case (Cons post rest)
  obtain r w1 where t: "tryImport e post st (print [LogProcessing (Suc i) n (wp_title post)] w) = (r, w1)"
    by (cases "tryImport e post st (print [LogProcessing (Suc i) n (wp_title post)] w)")
  from tryImport_dry_trace [OF assms, of post st "print [LogProcessing (Suc i) n (wp_title post)] w"] t
  have "trace w1 = trace w @ [QueryPostsGetBySlug (wp_slug post)]" by simp
  with t show ?case by (cases r) (simp_all add: Cons.IH)
qed

text \<open>The resolver is called from \<open>importPosts\<close> only, and a dry run never gets there: the
  loop body leaves after the existence query, so the existence queries are the only calls
  of a dry run. The guard \<^verbatim>\<open>if (isDryRun)\<close> inside the resolver
  (\<open>getOrCreateCategory_dry\<close>) is never reached.\<close>

lemma dry_run_makes_no_category_call:
  assumes "isDryRun e"
  shows "trace (snd (importPosts e wps w)) =
           trace w @ map (\<lambda>post. QueryPostsGetBySlug (wp_slug post)) wps"
  using importLoop_dry_trace [OF assms, of "length wps" 0 wps
      "\<lparr> successCount = 0, skipCount = 0, failCount = 0, imageFailCount = 0 \<rparr>"
      "print [LogImportHeader (isDryRun e)] w"]
  by (auto simp: importPosts_def print_def split: prod.splits)

lemma dry_run_with_category_label:
  "trace (snd (importPosts dryRunEnv
                 [(samplePost ''a'' ''<p>hi</p>'')\<lparr>wp_categories := [''Case Studies'']\<rparr>] world0)) =
     [QueryPostsGetBySlug ''a'']"
proof -
  have "isDryRun dryRunEnv" by (simp add: dryRunEnv_def)
  from dry_run_makes_no_category_call [OF this] show ?thesis
    by (simp add: world0_def samplePost_def)
qed

text \<open>
  Claim C9. The resolver returns \<open>undefined\<close> for the empty label. For a label that is not
  empty it queries the store by the derived slug; if a category has that slug it returns
  its reference and creates nothing; if none has it, it creates the category with that name
  and slug and returns the new reference. The same label presented again gets the same
  reference from one more query, and the store stays as it is. The label \<open>Case Studies\<close>
  has the slug \<open>case-studies\<close>. The statement is for the runs that call the resolver, which
  are the live ones (\<open>dry_run_makes_no_category_call\<close>). (The calls are taken to go
  through: a transport failure makes the resolver throw.)
\<close>

theorem category_lookup_or_create:
  assumes "name \<noteq> []" and "\<not> isDryRun e" and "convexFault e (tick w) = None"
    and "convexFault e (Suc (tick w)) = None" and "convexFault e (Suc (Suc (tick w))) = None"
  shows "getOrCreateCategory e [] w = (Inr None, w) \<and>
         getOrCreateCategory e name w =
           (case categoryBySlug (store w) (categorySlug name) of
              Some c \<Rightarrow>
                (Inr (Some (cat_id c)),
                 w\<lparr>tick := Suc (tick w),
                   trace := trace w @ [QueryCategoriesGetBySlug (categorySlug name)]\<rparr>)
            | None \<Rightarrow>
                (Inr (Some (nextId (store w))),
                 w\<lparr>store := (store w)\<lparr>categories := categories (store w) @
                                            [insertedCategory (nextId (store w)) name],
                                        nextId := Suc (nextId (store w))\<rparr>,
                   tick := Suc (Suc (tick w)),
                   trace := trace w @ [QueryCategoriesGetBySlug (categorySlug name),
                                       MutationCategoriesCreate name (categorySlug name)],
                   console := console w @ [LogCreatingCategory name]\<rparr>)) \<and>
         fst (getOrCreateCategory e name (snd (getOrCreateCategory e name w))) =
           fst (getOrCreateCategory e name w) \<and>
         store (snd (getOrCreateCategory e name (snd (getOrCreateCategory e name w)))) =
           store (snd (getOrCreateCategory e name w)) \<and>
         trace (snd (getOrCreateCategory e name (snd (getOrCreateCategory e name w)))) =
           trace (snd (getOrCreateCategory e name w)) @
             [QueryCategoriesGetBySlug (categorySlug name)] \<and>
         categorySlug ''Case Studies'' = ''case-studies''"
proof (cases "categoryBySlug (store w) (categorySlug name)")
  case None
  let ?w' = "w\<lparr>store := (store w)\<lparr>categories := categories (store w) @
                                     [insertedCategory (nextId (store w)) name],
                                 nextId := Suc (nextId (store w))\<rparr>,
            tick := Suc (Suc (tick w)),
            trace := trace w @ [QueryCategoriesGetBySlug (categorySlug name),
                                MutationCategoriesCreate name (categorySlug name)],
            console := console w @ [LogCreatingCategory name]\<rparr>"
  have first: "getOrCreateCategory e name w = (Inr (Some (nextId (store w))), ?w')"
    using assms(1,3,4) None assms(2) by (rule getOrCreateCategory_created)
  from None have "categoryBySlug (store ?w') (categorySlug name) =
                    Some (insertedCategory (nextId (store w)) name)"
    by (simp add: categoryBySlug_def find_append_None insertedCategory_def)
  with assms(1,5) have second: "getOrCreateCategory e name ?w' =
         (Inr (Some (cat_id (insertedCategory (nextId (store w)) name))),
          ?w'\<lparr>tick := Suc (tick ?w'),
            trace := trace ?w' @ [QueryCategoriesGetBySlug (categorySlug name)]\<rparr>)"
    by (intro getOrCreateCategory_found) simp_all
  from None first second show ?thesis
    by (simp add: getOrCreateCategory_empty categorySlug_case_studies insertedCategory_def)
next
  case (Some c)
  let ?w' = "w\<lparr>tick := Suc (tick w),
              trace := trace w @ [QueryCategoriesGetBySlug (categorySlug name)]\<rparr>"
  have first: "getOrCreateCategory e name w = (Inr (Some (cat_id c)), ?w')"
    using assms(1,3) Some by (rule getOrCreateCategory_found)
  from Some assms(1,4) have second: "getOrCreateCategory e name ?w' =
           (Inr (Some (cat_id c)),
            ?w'\<lparr>tick := Suc (tick ?w'),
              trace := trace ?w' @ [QueryCategoriesGetBySlug (categorySlug name)]\<rparr>)"
    by (intro getOrCreateCategory_found) simp_all
  from Some first second show ?thesis
    by (simp add: getOrCreateCategory_empty categorySlug_case_studies)
qed

theorem category_lookup_or_create_witness:
  "''Case Studies'' \<noteq> [] \<and> \<not> isDryRun quietEnv \<and> convexFault quietEnv (tick world0) = None \<and>
   convexFault quietEnv (Suc (tick world0)) = None \<and>
   convexFault quietEnv (Suc (Suc (tick world0))) = None \<and>
   getOrCreateCategory quietEnv ''Case Studies'' world0 =
     (Inr (Some 0),
      \<lparr> store = \<lparr> posts = [], categories = [insertedCategory 0 ''Case Studies''], nextId = 1 \<rparr>,
        tick = 2,
        trace = [QueryCategoriesGetBySlug ''case-studies'',
                 MutationCategoriesCreate ''Case Studies'' ''case-studies''],
        console = [LogCreatingCategory ''Case Studies''] \<rparr>) \<and>
   getOrCreateCategory quietEnv ''Case Studies''
       (snd (getOrCreateCategory quietEnv ''Case Studies'' world0)) =
     (Inr (Some 0),
      \<lparr> store = \<lparr> posts = [], categories = [insertedCategory 0 ''Case Studies''], nextId = 1 \<rparr>,
        tick = 3,
        trace = [QueryCategoriesGetBySlug ''case-studies'',
                 MutationCategoriesCreate ''Case Studies'' ''case-studies'',
                 QueryCategoriesGetBySlug ''case-studies''],
        console = [LogCreatingCategory ''Case Studies''] \<rparr>)"
proof -
  have n: "''Case Studies'' \<noteq> []" by simp
  have f: "convexFault quietEnv k = None" for k by (simp add: quietEnv_def)
  have d: "\<not> isDryRun quietEnv" by (simp add: quietEnv_def)
  have c: "categoryBySlug (store world0) (categorySlug ''Case Studies'') = None"
    by (simp add: categoryBySlug_def world0_def emptyDb_def)
  note t = category_lookup_or_create [where e = quietEnv and w = world0 and name = "''Case Studies''",
      OF n d f f f]
  have first: "getOrCreateCategory quietEnv ''Case Studies'' world0 =
     (Inr (Some 0),
      \<lparr> store = \<lparr> posts = [], categories = [insertedCategory 0 ''Case Studies''], nextId = 1 \<rparr>,
        tick = 2,
        trace = [QueryCategoriesGetBySlug ''case-studies'',
                 MutationCategoriesCreate ''Case Studies'' ''case-studies''],
        console = [LogCreatingCategory ''Case Studies''] \<rparr>)"
    using t c by (simp add: world0_def emptyDb_def)
  let ?w' = "snd (getOrCreateCategory quietEnv ''Case Studies'' world0)"
  have found: "categoryBySlug (store ?w') (categorySlug ''Case Studies'') =
                 Some (insertedCategory 0 ''Case Studies'')"
    by (simp add: first categoryBySlug_def insertedCategory_def)
  note t2 = category_lookup_or_create [where e = quietEnv and w = "?w'" and name = "''Case Studies''",
      OF n d f f f]
  have second: "getOrCreateCategory quietEnv ''Case Studies'' ?w' =
     (Inr (Some 0),
      \<lparr> store = \<lparr> posts = [], categories = [insertedCategory 0 ''Case Studies''], nextId = 1 \<rparr>,
        tick = 3,
        trace = [QueryCategoriesGetBySlug ''case-studies'',
                 MutationCategoriesCreate ''Case Studies'' ''case-studies'',
                 QueryCategoriesGetBySlug ''case-studies''],
        console = [LogCreatingCategory ''Case Studies''] \<rparr>)"
    using t2 found by (simp add: first insertedCategory_def categorySlug_case_studies)
  from n d f first second show ?thesis by simp
qed


section \<open>Properties of the content transformer\<close>

lemma getImageUrl_nonempty: "getImageUrl imageId variant \<noteq> []"
  by (simp add: getImageUrl_def)

lemma migrateImage_success:
  assumes "url \<noteq> []" and "startsWith url ''http''"
    and "cloudflareResponse e (tick w) url alt = Inr imageId"
  shows "migrateImage e url alt w =
           (Some (getImageUrl imageId Large),
            w\<lparr>tick := Suc (tick w), trace := trace w @ [UploadImageFromUrl url alt],
              console := console w @ [LogMigratingImage url,
                                      LogImageUploaded (getImageUrl imageId Large)]\<rparr>)"
  using assms
  by (simp add: migrateImage_def uploadImageFromUrl_def print_def remoteCall_def Let_def)

lemmas regex_eval =
  imageUrlsOf.simps execImgAt_def imgMatches_def imgRegexHead_def imgRegexGroup_def ends.simps
  fragmentReplace_def atomOf_def regExpSyntaxChars_def seqOf_def lineTerminator_def
  replaceMatches.simps objectSet_def

lemma imageUrlsOf_query_tag:
  "imageUrlsOf (imgTag ''http://x.io/a.png?w=1'') = [''http://x.io/a.png?w=1'']"
  by (simp add: imgTag_def regex_eval)

lemma replace_query_url:
  "fragmentReplace ''http://x.io/a.png?w=1'' (getImageUrl ''img'' Large)
     (imgTag ''http://x.io/a.png?w=1'') = Inr (imgTag ''http://x.io/a.png?w=1'')"
  by (simp add: imgTag_def getImageUrl_def ACCOUNT_HASH_def regex_eval)

text \<open>
  Claim C8 on the code. The content is one image whose address has a query string; the
  upload succeeds, so the address is in the mapping and no failure is counted. The pattern
  built from the address reads \<open>g?\<close> as an optional \<open>g\<close> and does not match the address
  itself, so the replace changes nothing and the converter is handed the content with the
  old address.
\<close>

theorem query_string_url_not_replaced:
  "convertContentToMarkdown quietEnv (imgTag ''http://x.io/a.png?w=1'') ''Hello'' world0 =
     (Inr (imgTag ''http://x.io/a.png?w=1'', 0),
      \<lparr> store = emptyDb, tick = 1,
        trace = [UploadImageFromUrl ''http://x.io/a.png?w=1'' ''Hello'',
                 Turndown (imgTag ''http://x.io/a.png?w=1'')],
        console = [LogMigratingImage ''http://x.io/a.png?w=1'',
                   LogImageUploaded (getImageUrl ''img'' Large)] \<rparr>)"
  by (simp add: convertContentToMarkdown_def imageUrlsOf_query_tag migrateImage_def
      uploadImageFromUrl_def startsWith_def truthy_def getImageUrl_nonempty callTurndown_def
      objectSet_def quietEnv_def replace_query_url world0_def print_def remoteCall_def Let_def)


section \<open>The stored posts along a run\<close>

text \<open>Uploads, the converter and the existence query leave the store as it is, and the
  category resolver leaves the posts as they are: only the create mutation of the loop body
  adds a post, and no step removes one.\<close>

lemma store_migrateImage [simp]: "store (snd (migrateImage e u a w)) = store w"
  by (simp add: migrateImage_def uploadImageFromUrl_def Let_def split: sum.splits)

lemma store_migrateImages [simp]: "store (snd (migrateImages e alt urls acc w)) = store w"
proof (induction urls arbitrary: acc w)
  case Nil
  then show ?case by simp
next
  case (Cons u urls)
  obtain m n where acc: "acc = (m, n)" by (cases acc)
  obtain r w1 where r: "migrateImage e u alt w = (r, w1)" by (cases "migrateImage e u alt w")
  from store_migrateImage [of e u alt w] r have "store w1 = store w" by simp
  with Cons.IH r show ?case by (simp add: acc)
qed

lemma store_callTurndown [simp]: "store (snd (callTurndown e h w)) = store w"
  by (simp add: callTurndown_def)

lemma store_convert [simp]: "store (snd (convertContentToMarkdown e html alt w)) = store w"
proof -
  obtain m n w1 where r: "migrateImages e alt (imageUrlsOf html) ([], 0) w = ((m, n), w1)"
    by (cases "migrateImages e alt (imageUrlsOf html) ([], 0) w") auto
  from store_migrateImages [of e alt "imageUrlsOf html" "([], 0)" w] r
  have "store w1 = store w" by simp
  with r show ?thesis
    by (simp add: convertContentToMarkdown_def callTurndown_def split: sum.splits)
qed

lemma convertExcerpt_store: "store (snd (convertExcerpt e post w)) = store w"
  by (simp add: convertExcerpt_def callTurndown_def split: sum.splits)

lemma posts_getOrCreateCategory [simp]:
  "posts (store (snd (getOrCreateCategory e name w))) = posts (store w)"
  by (simp add: getOrCreateCategory_def query_categories_getBySlug_def
      mutation_categories_create_def categories_create_def Let_def
      split: option.splits sum.splits prod.splits)

lemma posts_resolveCategory [simp]:
  "posts (store (snd (resolveCategory e post w))) = posts (store w)"
  by (simp add: resolveCategory_def split: list.splits)

lemma store_importFeaturedImage [simp]:
  "store (snd (importFeaturedImage e post w)) = store w"
proof (cases "wp_featuredImageUrl post")
  case None
  then show ?thesis by (simp add: importFeaturedImage_def)
next
  case (Some v)
  show ?thesis
  proof (cases v)
    case (Text url)
    obtain r w1 where r: "migrateImage e url (wp_title post) w = (r, w1)"
      by (cases "migrateImage e url (wp_title post) w")
    from store_migrateImage [of e url "wp_title post" w] r have "store w1 = store w" by simp
    with Some Text r show ?thesis by (simp add: importFeaturedImage_def)
  next
    case (Inherited k)
    with Some show ?thesis by (simp add: importFeaturedImage_def)
  qed
qed

lemma posts_mutation_posts_create:
  "\<exists>extra. posts (store (snd (mutation_posts_create e args w))) = posts (store w) @ extra"
  by (simp add: mutation_posts_create_def posts_create_def Let_def
      split: option.splits prod.splits)

lemma mutation_posts_create_Inr:
  assumes "mutation_posts_create e args w = (Inr newId, w')"
  shows "posts (store w') =
           posts (store w) @ [insertedPost (dateNow e (tick w)) (nextId (store w)) args]"
  using assms
  by (auto simp: mutation_posts_create_def posts_create_def Let_def
      split: option.splits prod.splits)


lemma query_posts_storeD:
  "query_posts_getBySlug e s w = (r, w1) \<Longrightarrow> store w1 = store w"
  by (auto simp: query_posts_getBySlug_def Let_def split: option.splits)

lemma query_posts_SomeD:
  "query_posts_getBySlug e s w = (Inr (Some x), w1) \<Longrightarrow> s \<in> slug ` set (posts (store w))"
  by (auto simp: query_posts_getBySlug_def posts_getBySlug_def Let_def
      split: option.splits dest!: postBySlug_Some_slug)

lemma convert_storeD:
  "convertContentToMarkdown e html alt w = (r, w1) \<Longrightarrow> store w1 = store w"
  using store_convert [of e html alt w] by simp

lemma convertExcerpt_storeD: "convertExcerpt e post w = (r, w1) \<Longrightarrow> store w1 = store w"
  using convertExcerpt_store [of e post w] by simp

lemma resolveCategory_postsD:
  "resolveCategory e post w = (r, w1) \<Longrightarrow> posts (store w1) = posts (store w)"
  using posts_resolveCategory [of e post w] by simp

lemma importFeaturedImage_storeD:
  "importFeaturedImage e post w = (r, w1) \<Longrightarrow> store w1 = store w"
  using store_importFeaturedImage [of e post w] by simp

lemma mutation_posts_create_InlD:
  "mutation_posts_create e args w = (Inl err, w1) \<Longrightarrow> store w1 = store w"
  by (auto simp: mutation_posts_create_def posts_create_def Let_def
      split: option.splits prod.splits if_splits)

text \<open>What one pass of the loop body does to the stored posts: nothing, or, in a live run
  on a post whose slug is not in the store, one document made from the arguments of the
  create mutation.\<close>

lemma tryImport_posts:
  assumes "tryImport e post st w = (r, w')"
  shows "(posts (store w') = posts (store w) \<and>
          (isDryRun e \<or> (\<exists>err. r = Inl err) \<or> wp_slug post \<in> slug ` set (posts (store w)))) \<or>
         (\<not> isDryRun e \<and> (\<exists>st'. r = Inr st') \<and>
          (\<exists>markdown ex cid w4 img failed w5.
             importFeaturedImage e post w4 = ((img, failed), w5) \<and>
             posts (store w') = posts (store w) @
               [insertedPost (dateNow e (tick w5)) (nextId (store w5))
                  (createArgs post markdown ex img cid)]))"
proof -
  obtain rq w1 where q: "query_posts_getBySlug e (wp_slug post) w = (rq, w1)"
    by (cases "query_posts_getBySlug e (wp_slug post) w")
  note s1 = query_posts_storeD [OF q]
  show ?thesis
  proof (cases "rq = Inr None \<and> \<not> isDryRun e")
    case False
    with assms q s1 query_posts_SomeD [of e "wp_slug post" w _ w1] show ?thesis
      by (auto simp: tryImport_def split: sum.splits option.splits if_splits)
  next
    case True
    obtain rc w2 where c: "convertContentToMarkdown e (wp_content post) (wp_title post) w1 = (rc, w2)"
      by (cases "convertContentToMarkdown e (wp_content post) (wp_title post) w1")
    note s2 = convert_storeD [OF c]
    show ?thesis
    proof (cases rc)
      case (Inl err)
      with assms q True c s1 s2 show ?thesis by (auto simp: tryImport_def)
    next
      case (Inr mk)
      obtain markdown imagesFailed where mk: "mk = (markdown, imagesFailed)" by (cases mk)
      obtain rx w3 where x: "convertExcerpt e post w2 = (rx, w3)"
        by (cases "convertExcerpt e post w2")
      note s3 = convertExcerpt_storeD [OF x]
      show ?thesis
      proof (cases rx)
        case (Inl err)
        with assms q True c Inr mk x s1 s2 s3 show ?thesis by (auto simp: tryImport_def)
      next
        case ex: (Inr ex)
        obtain rr w4 where r: "resolveCategory e post w3 = (rr, w4)"
          by (cases "resolveCategory e post w3")
        note s4 = resolveCategory_postsD [OF r]
        show ?thesis
        proof (cases rr)
          case (Inl err)
          with assms q True c Inr mk x ex r s1 s2 s3 s4 show ?thesis
            by (auto simp: tryImport_def)
        next
          case cid: (Inr cid)
          obtain img failed w5 where f: "importFeaturedImage e post w4 = ((img, failed), w5)"
            by (cases "importFeaturedImage e post w4") auto
          note s5 = importFeaturedImage_storeD [OF f]
          obtain rm w6 where m: "mutation_posts_create e (createArgs post markdown ex img cid) w5 = (rm, w6)"
            by (cases "mutation_posts_create e (createArgs post markdown ex img cid) w5")
          show ?thesis
          proof (cases rm)
            case (Inl err)
            from mutation_posts_create_InlD [OF m [unfolded Inl]]
            have "store w6 = store w5" .
            with assms q True c Inr mk x ex r cid f m Inl s1 s2 s3 s4 s5 show ?thesis
              by (auto simp: tryImport_def)
          next
            case newId: (Inr newId)
            from mutation_posts_create_Inr [OF m [unfolded newId]] s1 s2 s3 s4 s5
            have p6: "posts (store w6) = posts (store w) @
               [insertedPost (dateNow e (tick w5)) (nextId (store w5))
                  (createArgs post markdown ex img cid)]"
              by simp
            from assms q True c Inr mk x ex r cid f m newId
            have "(\<exists>st'. r = Inr st') \<and> posts (store w') = posts (store w6)"
              by (auto simp: tryImport_def split: if_splits)
            with p6 have r: "\<exists>st'. r = Inr st'" and p: "posts (store w') = posts (store w) @
               [insertedPost (dateNow e (tick w5)) (nextId (store w5))
                  (createArgs post markdown ex img cid)]"
              by simp_all
            from f p have "\<exists>markdown ex cid w4 img failed w5.
             importFeaturedImage e post w4 = ((img, failed), w5) \<and>
             posts (store w') = posts (store w) @
               [insertedPost (dateNow e (tick w5)) (nextId (store w5))
                  (createArgs post markdown ex img cid)]"
              by blast
            with True r show ?thesis by blast
          qed
        qed
      qed
    qed
  qed
qed

lemma tryImport_posts_mono:
  "\<exists>extra. posts (store (snd (tryImport e post st w))) = posts (store w) @ extra"
  using tryImport_posts [of e post st w "fst (tryImport e post st w)" "snd (tryImport e post st w)"]
  by auto

lemma tryImport_created:
  assumes "tryImport e post st w = (Inr st', w')" and "\<not> isDryRun e"
    and "wp_slug post \<notin> slug ` set (posts (store w))"
  shows "\<exists>markdown ex cid w4 img failed w5.
             importFeaturedImage e post w4 = ((img, failed), w5) \<and>
             posts (store w') = posts (store w) @
               [insertedPost (dateNow e (tick w5)) (nextId (store w5))
                  (createArgs post markdown ex img cid)]"
  using tryImport_posts [OF assms(1)] assms(2,3) by blast

lemma importLoop_posts_mono:
  "\<exists>extra. posts (store (snd (importLoop e n i wps st w))) = posts (store w) @ extra"
proof (induction wps arbitrary: i st w)
  case Nil
  then show ?case by simp
next
  case (Cons post rest)
  let ?t = "tryImport e post st (print [LogProcessing (Suc i) n (wp_title post)] w)"
  obtain r w1 where t: "?t = (r, w1)" by (cases ?t)
  from tryImport_posts_mono [of e post st "print [LogProcessing (Suc i) n (wp_title post)] w"] t
  obtain x1 where 1: "posts (store w1) = posts (store w) @ x1" by auto
  show ?case
  proof (cases r)
    case (Inl err)
    from Cons.IH [of "Suc i" "st\<lparr>failCount := Suc (failCount st)\<rparr>" "print [ErrFailedToImport err] w1"]
    obtain x2 where "posts (store (snd (importLoop e n (Suc i) rest
        (st\<lparr>failCount := Suc (failCount st)\<rparr>) (print [ErrFailedToImport err] w1)))) =
        posts (store w1) @ x2" by auto
    with t Inl 1 show ?thesis by simp
  next
    case (Inr st1)
    from Cons.IH [of "Suc i" st1 w1]
    obtain x2 where "posts (store (snd (importLoop e n (Suc i) rest st1 w1))) = posts (store w1) @ x2"
      by auto
    with t Inr 1 show ?thesis by simp
  qed
qed

lemma importLoop_append:
  "importLoop e n i (xs @ ys) st w =
     (case importLoop e n i xs st w of (st1, w1) \<Rightarrow> importLoop e n (i + length xs) ys st1 w1)"
proof (induction xs arbitrary: i st w)
  case Nil
  then show ?case by simp
next
  case (Cons post rest)
  show ?case
    by (simp add: Cons.IH split: prod.splits sum.splits)
qed


section \<open>Properties of the attachment index\<close>

lemma map_of_recordSet: "map_of (recordSet k v al) = (map_of al)(k \<mapsto> v)"
  by (induction al) (auto simp: fun_upd_twist)

lemma map_of_objectSet:
  "map_of (objectSet k v al) =
     (if k = ''__proto__'' then map_of al else (map_of al)(k \<mapsto> v))"
  by (simp add: objectSet_def map_of_recordSet)

lemma buildAttachments_lookup:
  assumes "tid \<noteq> []" and "tid \<noteq> ''__proto__''"
    and "\<forall>b \<in> set items. attachmentFor tid b \<longrightarrow> item_attachment_url b = Some url"
  shows "map_of (buildAttachments items acc) tid =
           (if \<exists>a \<in> set items. attachmentFor tid a then Some url else map_of acc tid)"
  using assms(3)
proof (induction items arbitrary: acc)
  case Nil
  then show ?case by simp
next
  case (Cons it items)
  from Cons.prems have rest: "\<forall>b \<in> set items. attachmentFor tid b \<longrightarrow> item_attachment_url b = Some url"
    by simp
  note IH = Cons.IH [OF rest]
  show ?case
  proof (cases "attachmentFor tid it")
    case True
    with Cons.prems have u: "item_attachment_url it = Some url" by simp
    from True u have "url \<noteq> []" by (simp add: attachmentFor_def truthy_def)
    with True u assms(1,2) show ?thesis
      by (simp add: IH attachmentFor_def map_of_objectSet)
  next
    case False
    then show ?thesis
      by (auto simp: IH attachmentFor_def truthy_def map_of_objectSet
          split: option.splits)
  qed
qed

lemma collect_Inr: "collect rs = Inr xs \<Longrightarrow> rs = map Inr xs"
proof (induction rs arbitrary: xs)
  case Nil
  then show ?case by simp
next
  case (Cons r rs)
  then show ?case by (cases r) (auto split: sum.splits)
qed

lemma parsed_posts:
  assumes "parseWordPressXML items = Inr (found, lines)"
  shows "map (extractPost (buildAttachments items [])) (filter eligible items) = map Inr found"
proof -
  from assms have "collect (map (extractPost (buildAttachments items [])) (filter eligible items)) =
                     Inr found"
    by (auto simp: parseWordPressXML_def extractPosts_eq Let_def split: sum.splits)
  then show ?thesis by (rule collect_Inr)
qed

lemma parsed_lines:
  assumes "parseWordPressXML items = Inr (found, lines)"
  shows "lines =
     [LogFoundItems (length items), LogFoundAttachments (length (buildAttachments items []))] @
     map (\<lambda>it. LogSkippingNonPublished (orElse (item_title it) ''Untitled''))
         (filter skippedWithLine items) @
     [LogFoundPosts (length found)]"
  using assms
  by (auto simp: parseWordPressXML_def extractPosts_eq Let_def split: sum.splits)

lemma parsed_member:
  assumes "parseWordPressXML items = Inr (found, lines)"
    and "it \<in> set items" and "eligible it"
    and "extractPost (buildAttachments items []) it = Inr p"
  shows "p \<in> set found"
proof -
  from assms(2,3) have "extractPost (buildAttachments items []) it \<in>
      set (map (extractPost (buildAttachments items [])) (filter eligible items))"
    by simp
  with parsed_posts [OF assms(1)] assms(4) have "(Inr p :: string + WordPressPost) \<in> set (map Inr found)" by simp
  then show ?thesis by auto
qed

lemma deliveryUrl: "getImageUrl imageId Large =
    ''https://imagedelivery.net/uIVQ6NXJhv6uJPgWapIyVQ/'' @ imageId @ ''/large''"
  by (simp add: getImageUrl_def ACCOUNT_HASH_def)

lemma importFeaturedImage_uploaded:
  assumes "wp_featuredImageUrl post = Some (Text url)" and "url \<noteq> []"
    and "startsWith url ''http''"
    and "\<forall>k. cloudflareResponse e k url (wp_title post) = Inr imageId"
    and "importFeaturedImage e post w = ((img, failed), w')"
  shows "img = Some (getImageUrl imageId Large) \<and> \<not> failed"
proof -
  from assms(4) have "cloudflareResponse e (tick w) url (wp_title post) = Inr imageId" by simp
  from migrateImage_success [OF assms(2,3) this] assms(1,2,5) show ?thesis
    by (auto simp: importFeaturedImage_def truthy_def getImageUrl_nonempty)
qed

text \<open>
  Claim C7. The index is built from the whole export before the second pass reads any post:
  an attachment record with an identifier and an address is in the index wherever it stands
  in the export. An eligible post whose thumbnail meta names the identifier of such a record
  is among the parsed posts, with the address of the attachment as its featured image
  address. When \<open>importPosts\<close> runs live over the parsed posts, the upload of that address
  succeeds, no stored post has the slug when the loop reaches the post, and the import of
  the post does not throw, then the store holds the document that the create mutation made
  from the arguments of \<open>importPosts\<close>: a post with that slug whose featured image
  is the delivery address \<^verbatim>\<open>https://imagedelivery.net/<account hash>/<image id>/large\<close> of
  the uploaded image. (All attachment records with the identifier are taken to carry the
  same address, the last one wins otherwise; the identifier is not \<open>__proto__\<close>, which a
  plain object does not store.)
\<close>

theorem featured_image_resolved_through_index:
  assumes parse: "parseWordPressXML items = Inr (found, lines)"
    and it: "it \<in> set items" "eligible it" "thumbnailId it = Some tid"
    and post: "extractPost (buildAttachments items []) it = Inr p"
    and att: "a \<in> set items" "attachmentFor tid a" "item_attachment_url a = Some url"
    and tid: "tid \<noteq> []" "tid \<noteq> ''__proto__''"
    and uniq: "\<forall>b \<in> set items. attachmentFor tid b \<longrightarrow> item_attachment_url b = Some url"
    and http: "startsWith url ''http''"
    and up: "\<forall>k. cloudflareResponse e k url (wp_title p) = Inr imageId"
    and live: "\<not> isDryRun e"
    and pos: "found = pre @ p # rest"
    and run: "importLoop e (length found) 0 pre emptyStats (print [LogImportHeader False] w) =
                (st1, w1)"
    and fresh: "wp_slug p \<notin> slug ` set (posts (store w1))"
    and ok: "fst (tryImport e p st1
                    (print [LogProcessing (Suc (length pre)) (length found) (wp_title p)] w1)) =
               Inr st2"
  shows "map_of (buildAttachments items []) tid = Some url \<and>
         p \<in> set found \<and>
         wp_featuredImageUrl p = Some (Text url) \<and>
         (\<exists>now newId markdown ex cid.
            insertedPost now newId
              (createArgs p markdown ex
                 (Some (''https://imagedelivery.net/uIVQ6NXJhv6uJPgWapIyVQ/'' @ imageId @ ''/large''))
                 cid)
              \<in> set (posts (store (snd (importPosts e found w))))) \<and>
         (\<exists>d \<in> set (posts (store (snd (importPosts e found w)))).
            slug d = wp_slug p \<and>
            featuredImage d =
              Some (''https://imagedelivery.net/uIVQ6NXJhv6uJPgWapIyVQ/'' @ imageId @ ''/large''))"
proof -
  let ?att = "buildAttachments items []"
  from att(1,2) have "\<exists>a \<in> set items. attachmentFor tid a" by blast
  with buildAttachments_lookup [OF tid uniq, of "[]"]
  have idx: "map_of ?att tid = Some url" by simp
  have mem: "p \<in> set found" using parse it(1,2) post by (rule parsed_member)
  from post it(3) tid(1) idx have f: "wp_featuredImageUrl p = Some (Text url)"
    by (auto simp: extractPost_def truthy_def objectGet_def split: sum.splits)
  from att(2,3) have ne: "url \<noteq> []" by (simp add: attachmentFor_def truthy_def)
  let ?w1 = "print [LogProcessing (Suc (length pre)) (length found) (wp_title p)] w1"
  obtain w2 where t: "tryImport e p st1 ?w1 = (Inr st2, w2)"
    using ok by (cases "tryImport e p st1 ?w1") simp
  from fresh have fresh': "wp_slug p \<notin> slug ` set (posts (store ?w1))" by simp
  from tryImport_created [OF t live fresh']
  obtain markdown ex cid w4 img failed w5 where
    fi: "importFeaturedImage e p w4 = ((img, failed), w5)" and
    p2: "posts (store w2) = posts (store ?w1) @
           [insertedPost (dateNow e (tick w5)) (nextId (store w5))
              (createArgs p markdown ex img cid)]"
    by blast
  from importFeaturedImage_uploaded [OF f ne http up fi]
  have img: "img = Some (getImageUrl imageId Large)" by simp
  let ?d = "insertedPost (dateNow e (tick w5)) (nextId (store w5)) (createArgs p markdown ex img cid)"
  have d1: "slug ?d = wp_slug p" by (simp add: insertedPost_def createArgs_def)
  have d2: "featuredImage ?d =
              Some (''https://imagedelivery.net/uIVQ6NXJhv6uJPgWapIyVQ/'' @ imageId @ ''/large'')"
    by (simp add: insertedPost_def createArgs_def img deliveryUrl)
  from p2 have in2: "?d \<in> set (posts (store w2))" by simp
  obtain extra where rest:
    "posts (store (snd (importLoop e (length found) (Suc (length pre)) rest st2 w2))) =
       posts (store w2) @ extra"
    using importLoop_posts_mono [of e "length found" "Suc (length pre)" rest st2 w2] by blast
  have loop: "importLoop e (length found) 0 found emptyStats (print [LogImportHeader False] w) =
                importLoop e (length found) (Suc (length pre)) rest st2 w2"
    by (simp add: pos [symmetric] importLoop_append [of e "length found" 0 pre "p # rest", folded pos] run t)
  from live have "store (snd (importPosts e found w)) =
          store (snd (importLoop e (length found) 0 found emptyStats (print [LogImportHeader False] w)))"
    by (simp add: importPosts_def emptyStats_def split: prod.splits)
  with loop rest in2 have fin: "?d \<in> set (posts (store (snd (importPosts e found w))))" by simp
  then have "insertedPost (dateNow e (tick w5)) (nextId (store w5))
               (createArgs p markdown ex
                  (Some (''https://imagedelivery.net/uIVQ6NXJhv6uJPgWapIyVQ/'' @ imageId @ ''/large''))
                  cid)
               \<in> set (posts (store (snd (importPosts e found w))))"
    by (simp add: img deliveryUrl)
  then have made: "\<exists>now newId markdown ex cid.
            insertedPost now newId
              (createArgs p markdown ex
                 (Some (''https://imagedelivery.net/uIVQ6NXJhv6uJPgWapIyVQ/'' @ imageId @ ''/large''))
                 cid)
              \<in> set (posts (store (snd (importPosts e found w))))"
    by blast
  from fin d1 d2 have "\<exists>d \<in> set (posts (store (snd (importPosts e found w)))).
            slug d = wp_slug p \<and>
            featuredImage d =
              Some (''https://imagedelivery.net/uIVQ6NXJhv6uJPgWapIyVQ/'' @ imageId @ ''/large'')"
    by blast
  with made idx mem f show ?thesis by blast
qed


text \<open>The end-to-end scenario of the specification, evaluated: two eligible posts, one
  skip line for the draft, and the post that names the attachment stored with a delivery
  address.\<close>

lemma scenario_attachments:
  "buildAttachments scenarioItems [] = [(''42'', ''http://old.example/a.png'')]"
  by (simp add: scenarioItems_def postItem_def attachmentItem_def emptyItem_def objectSet_def)

lemma scenario_parse:
  "parseWordPressXML scenarioItems =
     Inr ([(samplePost ''one'' ''<p>hi</p>'')
             \<lparr>wp_featuredImageUrl := Some (Text ''http://old.example/a.png'')\<rparr>,
           samplePost ''two'' ''<p>hi</p>''],
          [LogFoundItems 4, LogFoundAttachments 1, LogSkippingNonPublished ''Hello'',
           LogFoundPosts 2])"
  by (simp add: parseWordPressXML_def scenario_attachments)
     (simp add: scenarioItems_def postItem_def attachmentItem_def emptyItem_def
        extractPost_def orElse_def truthy_def thumbnailId_def samplePost_def objectGet_def)

lemma createArgs_slug: "slug (createArgs post markdown ex img cid) = wp_slug post"
  by (simp add: createArgs_def)

lemma scenario_import:
  "importPosts quietEnv
     [(samplePost ''one'' ''<p>hi</p>'')
        \<lparr>wp_featuredImageUrl := Some (Text ''http://old.example/a.png'')\<rparr>,
      samplePost ''two'' ''<p>hi</p>''] world0 =
   (emptyStats\<lparr>successCount := 2\<rparr>,
    \<lparr> store = \<lparr> posts =
          [insertedPost 1002 0
             (createArgs ((samplePost ''one'' ''<p>hi</p>'')
                            \<lparr>wp_featuredImageUrl := Some (Text ''http://old.example/a.png'')\<rparr>)
                ''<p>hi</p>'' None (Some (getImageUrl ''img'' Large)) None),
           insertedPost 1004 1
             (createArgs (samplePost ''two'' ''<p>hi</p>'') ''<p>hi</p>'' None None None)],
          categories = [], nextId = 2 \<rparr>,
      tick = 5,
      trace = [QueryPostsGetBySlug ''one'', Turndown ''<p>hi</p>'',
               UploadImageFromUrl ''http://old.example/a.png'' ''Hello'',
               MutationPostsCreate
                 (createArgs ((samplePost ''one'' ''<p>hi</p>'')
                            \<lparr>wp_featuredImageUrl := Some (Text ''http://old.example/a.png'')\<rparr>)
                    ''<p>hi</p>'' None (Some (getImageUrl ''img'' Large)) None),
               QueryPostsGetBySlug ''two'', Turndown ''<p>hi</p>'',
               MutationPostsCreate
                 (createArgs (samplePost ''two'' ''<p>hi</p>'') ''<p>hi</p>'' None None None)],
      console = [LogImportHeader False,
                 LogProcessing 1 2 ''Hello'', LogMigratingImage ''http://old.example/a.png'',
                 LogImageUploaded (getImageUrl ''img'' Large), LogImportedSuccessfully,
                 LogProcessing 2 2 ''Hello'', LogImportedSuccessfully,
                 LogImportSummary False 2 0 0 0] \<rparr>)"
  by (simp add: importPosts_def tryImport_def query_posts_getBySlug_def
      posts_getBySlug_def postBySlug_def convertContentToMarkdown_def callTurndown_def
      imageUrlsOf_plain convertExcerpt_def resolveCategory_def importFeaturedImage_def
      migrateImage_def uploadImageFromUrl_def startsWith_def truthy_def getImageUrl_nonempty
      mutation_posts_create_def posts_create_def insertedPost_slug createArgs_slug
      quietEnv_def samplePost_def world0_def emptyDb_def emptyStats_def print_def remoteCall_def Let_def)


theorem featured_image_resolved_through_index_witness:
  "parseWordPressXML scenarioItems =
     Inr ([(samplePost ''one'' ''<p>hi</p>'')
             \<lparr>wp_featuredImageUrl := Some (Text ''http://old.example/a.png'')\<rparr>,
           samplePost ''two'' ''<p>hi</p>''],
          [LogFoundItems 4, LogFoundAttachments 1, LogSkippingNonPublished ''Hello'',
           LogFoundPosts 2]) \<and>
   postItem ''one'' ''publish'' (Some ''42'') \<in> set scenarioItems \<and>
   eligible (postItem ''one'' ''publish'' (Some ''42'')) \<and>
   thumbnailId (postItem ''one'' ''publish'' (Some ''42'')) = Some ''42'' \<and>
   attachmentItem ''42'' ''http://old.example/a.png'' \<in> set scenarioItems \<and>
   attachmentFor ''42'' (attachmentItem ''42'' ''http://old.example/a.png'') \<and>
   startsWith ''http://old.example/a.png'' ''http'' \<and>
   \<not> isDryRun quietEnv \<and>
   fst (tryImport quietEnv
          ((samplePost ''one'' ''<p>hi</p>'')
             \<lparr>wp_featuredImageUrl := Some (Text ''http://old.example/a.png'')\<rparr>)
          emptyStats
          (print [LogProcessing 1 2 ''Hello''] (print [LogImportHeader False] world0))) =
     Inr (emptyStats\<lparr>successCount := 1\<rparr>) \<and>
   map_of (buildAttachments scenarioItems []) ''42'' = Some ''http://old.example/a.png'' \<and>
   (\<exists>d \<in> set (posts (store (snd (importPosts quietEnv
        [(samplePost ''one'' ''<p>hi</p>'')
           \<lparr>wp_featuredImageUrl := Some (Text ''http://old.example/a.png'')\<rparr>,
         samplePost ''two'' ''<p>hi</p>''] world0)))).
      slug d = ''one'' \<and>
      featuredImage d = Some ''https://imagedelivery.net/uIVQ6NXJhv6uJPgWapIyVQ/img/large'') \<and>
   map (\<lambda>d. (slug d, featuredImage d))
     (posts (store (snd (importPosts quietEnv
        [(samplePost ''one'' ''<p>hi</p>'')
           \<lparr>wp_featuredImageUrl := Some (Text ''http://old.example/a.png'')\<rparr>,
         samplePost ''two'' ''<p>hi</p>''] world0)))) =
     [(''one'', Some ''https://imagedelivery.net/uIVQ6NXJhv6uJPgWapIyVQ/img/large''),
      (''two'', None)]"
proof -
  let ?it = "postItem ''one'' ''publish'' (Some ''42'')"
  let ?a = "attachmentItem ''42'' ''http://old.example/a.png''"
  let ?u = "''http://old.example/a.png''"
  let ?p = "(samplePost ''one'' ''<p>hi</p>'')\<lparr>wp_featuredImageUrl := Some (Text ?u)\<rparr>"
  let ?q = "samplePost ''two'' ''<p>hi</p>''"
  let ?w1 = "print [LogImportHeader False] world0"
  have 1: "?it \<in> set scenarioItems" by (simp add: scenarioItems_def)
  have 2: "eligible ?it" by (simp add: eligible_def postItem_def)
  have 3: "thumbnailId ?it = Some ''42''" by (simp add: thumbnailId_def postItem_def)
  have 4: "extractPost (buildAttachments scenarioItems []) ?it = Inr ?p"
    by (simp add: scenario_attachments)
       (simp add: postItem_def emptyItem_def extractPost_def orElse_def truthy_def
          thumbnailId_def samplePost_def objectGet_def)
  have 5: "?a \<in> set scenarioItems" by (simp add: scenarioItems_def)
  have 6: "attachmentFor ''42'' ?a" by (simp add: attachmentFor_def attachmentItem_def truthy_def)
  have 7: "item_attachment_url ?a = Some ?u" by (simp add: attachmentItem_def)
  have 8: "''42'' \<noteq> []" "''42'' \<noteq> ''__proto__''" by simp_all
  have 9: "\<forall>b \<in> set scenarioItems. attachmentFor ''42'' b \<longrightarrow> item_attachment_url b = Some ?u"
    by (simp add: scenarioItems_def attachmentFor_def attachmentItem_def postItem_def emptyItem_def)
  have 10: "startsWith ?u ''http''" by (simp add: startsWith_def)
  have 11: "\<forall>k. cloudflareResponse quietEnv k ?u (wp_title ?p) = Inr ''img''"
    by (simp add: quietEnv_def)
  have 12: "\<not> isDryRun quietEnv" by (simp add: quietEnv_def)
  have 13: "[?p, ?q] = [] @ ?p # [?q]" by simp
  have 14: "importLoop quietEnv (length [?p, ?q]) 0 [] emptyStats ?w1 = (emptyStats, ?w1)"
    by simp
  have 15: "wp_slug ?p \<notin> slug ` set (posts (store ?w1))"
    by (simp add: world0_def emptyDb_def)
  have 16: "fst (tryImport quietEnv ?p emptyStats
                   (print [LogProcessing (Suc (length ([] :: WordPressPost list)))
                             (length [?p, ?q]) (wp_title ?p)] ?w1)) =
              Inr (emptyStats\<lparr>successCount := 1\<rparr>)"
    by (simp add: tryImport_def query_posts_getBySlug_def
      posts_getBySlug_def postBySlug_def convertContentToMarkdown_def callTurndown_def
      imageUrlsOf_plain convertExcerpt_def resolveCategory_def importFeaturedImage_def
      migrateImage_def uploadImageFromUrl_def startsWith_def truthy_def getImageUrl_nonempty
      mutation_posts_create_def posts_create_def insertedPost_slug createArgs_slug
      quietEnv_def samplePost_def world0_def emptyDb_def emptyStats_def print_def remoteCall_def Let_def)
  note t = featured_image_resolved_through_index
             [where items = scenarioItems and e = quietEnv and w = world0 and pre = "[]"
                and rest = "[?q]" and ?st1.0 = emptyStats and ?w1.0 = "?w1" and tid = "''42''"
                and url = "?u" and imageId = "''img''" and p = "?p" and it = "?it" and a = "?a",
              OF scenario_parse 1 2 3 4 5 6 7 8 9 10 11 12 13 14 15 16]
  have 17: "map (\<lambda>d. (slug d, featuredImage d))
     (posts (store (snd (importPosts quietEnv [?p, ?q] world0)))) =
     [(''one'', Some ''https://imagedelivery.net/uIVQ6NXJhv6uJPgWapIyVQ/img/large''),
      (''two'', None)]"
    unfolding scenario_import
    by (simp add: insertedPost_def createArgs_def samplePost_def getImageUrl_def ACCOUNT_HASH_def)
  have 18: "wp_slug ?p = ''one''" "wp_title ?p = ''Hello''" by (simp_all add: samplePost_def)
  from t have c1: "map_of (buildAttachments scenarioItems []) ''42'' = Some ?u"
    and c2: "\<exists>d \<in> set (posts (store (snd (importPosts quietEnv [?p, ?q] world0)))).
      slug d = ''one'' \<and>
      featuredImage d = Some ''https://imagedelivery.net/uIVQ6NXJhv6uJPgWapIyVQ/img/large''"
    by (simp_all add: 18)
  from 16 have ok1: "fst (tryImport quietEnv ?p emptyStats
          (print [LogProcessing 1 2 ''Hello''] ?w1)) = Inr (emptyStats\<lparr>successCount := 1\<rparr>)"
    by (simp add: 18 numeral_2_eq_2)
  from scenario_parse 1 2 3 5 6 10 12 ok1 c1 c2 17 show ?thesis by blast
qed


section \<open>Failed uploads of inline images\<close>





































end
